theory Spec2Isabelle
  imports Main "HOL-Library.AList" "HOL-Library.Word"
begin

unbundle bit_operations_syntax

section \<open>Python values used by feedback\_ui\<close>

text \<open>
  A Python \<open>str\<close> is modelled as a \<open>string\<close>: the list of its code points, each below
  256. A \<open>dict\<close> with string keys is an association list in insertion order, written
  with \<open>AList.update\<close>: assigning to a key that is present keeps its place, a new key
  goes to the end, as in Python.
\<close>

datatype psutil_error = NoSuchProcess | AccessDenied | ZombieProcess

text \<open>
  The exceptions that the modelled code raises or lets through. \<open>OutOfBlock\<close> is not a
  Python exception: it stands for a read of \<open>env_ptr[offset]\<close> that leaves the buffer
  the operating system handed out, where the source reads whatever memory follows.
\<close>

datatype py_exception =
    RuntimeError string
  | ValueError string
  | OSError string
  | PsutilError psutil_error
  | OutOfBlock

text \<open>
  \<open>str(e)\<close> for the exceptions that \<open>_run_command\<close> formats into a log line: the
  message they were raised with. The calls inside its \<open>try\<close> raise no psutil error, and
  a read outside the block is not caught; the text of these is left empty.
\<close>

fun str_exception :: "py_exception \<Rightarrow> string" where
  "str_exception (RuntimeError m) = m"
| "str_exception (ValueError m) = m"
| "str_exception (OSError m) = m"
| "str_exception (PsutilError e) = []"
| "str_exception OutOfBlock = []"

text \<open>\<open>str.isspace\<close> on one code point below 256.\<close>

definition isspace :: "char \<Rightarrow> bool" where
  "isspace c = (of_char c \<in> {9, 10, 11, 12, 13, 28, 29, 30, 31, 32, 133, 160 :: nat})"

definition lstrip :: "string \<Rightarrow> string" where
  "lstrip s = dropWhile isspace s"

definition rstrip :: "string \<Rightarrow> string" where
  "rstrip s = rev (dropWhile isspace (rev s))"

definition strip :: "string \<Rightarrow> string" where
  "strip s = rstrip (lstrip s)"

text \<open>\<open>"".join(xs)\<close>\<close>

definition join_empty :: "string list \<Rightarrow> string" where
  "join_empty xs = concat xs"

text \<open>\<open>str(n)\<close> for an \<open>int\<close>, as the f-string \<open>{exit_code}\<close> formats it.\<close>

definition digit_char :: "nat \<Rightarrow> char" where
  "digit_char d = ''0123456789'' ! d"

fun str_nat :: "nat \<Rightarrow> string" where
  "str_nat n = (if n < 10 then [digit_char n] else str_nat (n div 10) @ [digit_char (n mod 10)])"

declare str_nat.simps [simp del]

definition str_int :: "int \<Rightarrow> string" where
  "str_int i = (if i < 0 then CHR ''-'' # str_nat (nat (- i)) else str_nat (nat i))"

text \<open>
  \<open>s.index(c)\<close>: the position of the first occurrence of \<open>c\<close>; raises
  \<open>ValueError\<close> when there is none (unlike \<open>s.find\<close>, which returns \<open>-1\<close>).
\<close>

fun find_first :: "char \<Rightarrow> string \<Rightarrow> nat option" where
  "find_first c [] = None"
| "find_first c (x # xs) =
     (if x = c then Some 0 else map_option Suc (find_first c xs))"

definition str_index :: "string \<Rightarrow> char \<Rightarrow> py_exception + int" where
  "str_index s c =
     (case find_first c s of
        None \<Rightarrow> Inl (ValueError ''substring not found'')
      | Some i \<Rightarrow> Inr (int i))"


section \<open>get\_user\_environment\<close>

type_synonym environ = "(string \<times> string) list"

text \<open>
  What the function asks of the platform: \<open>sys.platform\<close>, \<open>os.environ\<close>, whether
  \<open>OpenProcessToken\<close> succeeds, and the buffer that \<open>CreateEnvironmentBlock\<close> fills
  (\<open>None\<close> when the call returns false).
\<close>

record platform =
  sys_platform :: string
  os_environ :: environ
  OpenProcessToken :: bool
  CreateEnvironmentBlock :: "string option"

text \<open>
  The inner loop \<open>while env_ptr[offset] != "\0": current_string += env_ptr[offset];
  offset += 1\<close>. It returns the string read and the offset of its terminator.
\<close>

function read_string :: "string \<Rightarrow> nat \<Rightarrow> string \<Rightarrow> (string \<times> nat) option" where
  "read_string env_ptr offset current_string =
     (if length env_ptr \<le> offset then None
      else if env_ptr ! offset = CHR 0x00 then Some (current_string, offset)
      else read_string env_ptr (offset + 1) (current_string @ [env_ptr ! offset]))"
  by pat_completeness auto
termination
  by (relation "measure (\<lambda>(env_ptr, offset, current_string). length env_ptr - offset)") auto

declare read_string.simps [simp del]

lemma read_string_offset:
  "read_string env_ptr offset cur = Some (s, off) \<Longrightarrow> offset \<le> off \<and> off < length env_ptr"
proof (induction env_ptr offset cur rule: read_string.induct)
  case (1 env_ptr offset current_string)
  show ?case
  proof (cases "length env_ptr \<le> offset")
    case True
    with "1.prems" show ?thesis by (simp add: read_string.simps)
  next
    case inside: False
    show ?thesis
    proof (cases "env_ptr ! offset = CHR 0x00")
      case True
      with inside "1.prems" show ?thesis by (simp add: read_string.simps)
    next
      case False
      with inside "1.prems"
      have "read_string env_ptr (offset + 1) (current_string @ [env_ptr ! offset]) = Some (s, off)"
        by (simp add: read_string.simps)
      with "1.IH" [OF inside False] show ?thesis by simp
    qed
  qed
qed

text \<open>
  The outer \<open>while True\<close> loop of the win32 branch, from \<open>offset\<close> with the dictionary
  built so far.
\<close>

function parse_block :: "string \<Rightarrow> nat \<Rightarrow> environ \<Rightarrow> py_exception + environ" where
  "parse_block env_ptr offset result =
     (case read_string env_ptr offset [] of
        None \<Rightarrow> Inl OutOfBlock
      | Some (current_string, off) \<Rightarrow>
          (if current_string = [] then Inr result
           else (case str_index current_string CHR ''='' of
                   Inl e \<Rightarrow> Inl e
                 | Inr equal_index \<Rightarrow>
                     (if equal_index = - 1 then parse_block env_ptr (off + 1) result
                      else parse_block env_ptr (off + 1)
                             (AList.update (take (nat equal_index) current_string)
                                (drop (nat equal_index + 1) current_string) result)))))"
  by pat_completeness auto
termination
proof (relation "measure (\<lambda>(env_ptr, offset, result). length env_ptr - offset)")
  show "wf (measure (\<lambda>(env_ptr, offset, result). length env_ptr - offset))"
    by simp
next
  fix env_ptr :: string and offset :: nat and result :: environ and x2 x y
  assume "read_string env_ptr offset [] = Some x2" and "(x, y) = x2"
  then have "read_string env_ptr offset [] = Some (x, y)" by simp
  then have "offset \<le> y \<and> y < length env_ptr" by (rule read_string_offset)
  then show "((env_ptr, y + 1, result), env_ptr, offset, result)
      \<in> measure (\<lambda>(env_ptr, offset, result). length env_ptr - offset)"
    by auto
next
  fix env_ptr :: string and offset :: nat and result r :: environ and x2 x y
  assume "read_string env_ptr offset [] = Some x2" and "(x, y) = x2"
  then have "read_string env_ptr offset [] = Some (x, y)" by simp
  then have "offset \<le> y \<and> y < length env_ptr" by (rule read_string_offset)
  then show "((env_ptr, y + 1, r), env_ptr, offset, result)
      \<in> measure (\<lambda>(env_ptr, offset, result). length env_ptr - offset)"
    by auto
qed

declare parse_block.simps [simp del]

definition get_user_environment :: "platform \<Rightarrow> py_exception + environ" where
  "get_user_environment pf =
     (if sys_platform pf \<noteq> ''win32'' then Inr (os_environ pf)
      else if \<not> OpenProcessToken pf then Inl (RuntimeError ''Failed to open process token'')
      else (case CreateEnvironmentBlock pf of
              None \<Rightarrow> Inl (RuntimeError ''Failed to create environment block'')
            | Some environment \<Rightarrow> parse_block environment 0 []))"


section \<open>kill\_tree\<close>

text \<open>
  \<open>psutil\<close> is the window of \<open>kill_tree\<close> on the operating system. Its answers are
  parameters of the model, over a state \<open>'os\<close> of the operating system that the calls
  may change. A \<open>psutil.Process\<close> object is identified with its pid.
  \<^item> \<open>psutil_Process pid\<close>: the constructor \<open>psutil.Process(pid)\<close>, which raises
    \<open>NoSuchProcess\<close> when no process has that pid (\<open>Some e\<close> is the error raised);
  \<^item> \<open>psutil_children pid\<close>: \<open>children(recursive=True)\<close>;
  \<^item> \<open>psutil_kill\<close>, \<open>psutil_terminate\<close>, \<open>psutil_is_running\<close>: the methods of
    the same names.
\<close>

record 'os psutil =
  psutil_Process :: "nat \<Rightarrow> 'os \<Rightarrow> psutil_error option"
  psutil_children :: "nat \<Rightarrow> 'os \<Rightarrow> psutil_error + nat list"
  psutil_kill :: "nat \<Rightarrow> 'os \<Rightarrow> psutil_error option \<times> 'os"
  psutil_is_running :: "nat \<Rightarrow> 'os \<Rightarrow> psutil_error + bool"
  psutil_terminate :: "nat \<Rightarrow> 'os \<Rightarrow> psutil_error option \<times> 'os"

text \<open>The signalling calls that \<open>kill_tree\<close> makes, in the order it makes them.\<close>

datatype psutil_call = Kill nat | Terminate nat

text \<open>
  The first loop: \<open>for proc in parent.children(recursive=True): try: proc.kill();
  killed.append(proc) except psutil.Error: pass\<close>.
\<close>

fun kill_children ::
  "'os psutil \<Rightarrow> nat list \<Rightarrow> nat list \<Rightarrow> 'os \<Rightarrow> nat list \<times> 'os \<times> psutil_call list" where
  "kill_children ps [] killed os = (killed, os, [])"
| "kill_children ps (proc # procs) killed os =
     (case psutil_kill ps proc os of
        (None, os') \<Rightarrow>
          (case kill_children ps procs (killed @ [proc]) os' of
             (killed', os'', calls) \<Rightarrow> (killed', os'', Kill proc # calls))
      | (Some e, os') \<Rightarrow>
          (case kill_children ps procs killed os' of
             (killed', os'', calls) \<Rightarrow> (killed', os'', Kill proc # calls)))"

text \<open>
  The second loop: \<open>for proc in killed: try: if proc.is_running(): proc.terminate()
  except psutil.Error: pass\<close>.
\<close>

fun terminate_remaining ::
  "'os psutil \<Rightarrow> nat list \<Rightarrow> 'os \<Rightarrow> 'os \<times> psutil_call list" where
  "terminate_remaining ps [] os = (os, [])"
| "terminate_remaining ps (proc # procs) os =
     (case psutil_is_running ps proc os of
        Inl e \<Rightarrow> terminate_remaining ps procs os
      | Inr running \<Rightarrow>
          (if running then
             (case psutil_terminate ps proc os of
                (r, os') \<Rightarrow>
                  (case terminate_remaining ps procs os' of
                     (os'', calls) \<Rightarrow> (os'', Terminate proc # calls)))
           else terminate_remaining ps procs os))"

text \<open>
  \<open>kill_tree(process)\<close>, with \<open>process.pid\<close> for \<open>process\<close>. The result is the
  exception that escapes (\<open>None\<close> when the function returns), the state of the operating
  system afterwards and the signalling calls made.
\<close>

definition kill_tree ::
  "'os psutil \<Rightarrow> nat \<Rightarrow> 'os \<Rightarrow> py_exception option \<times> 'os \<times> psutil_call list" where
  "kill_tree ps pid os =
     (case psutil_Process ps pid os of
        Some e \<Rightarrow> (Some (PsutilError e), os, [])
      | None \<Rightarrow>
          (case psutil_children ps pid os of
             Inl e \<Rightarrow> (Some (PsutilError e), os, [])
           | Inr children \<Rightarrow>
               (case kill_children ps children [] os of
                  (killed, os1, calls1) \<Rightarrow>
                    (case psutil_kill ps pid os1 of
                       (r, os2) \<Rightarrow>
                         (case terminate_remaining ps (killed @ [pid]) os2 of
                            (os3, calls2) \<Rightarrow>
                              (None, os3, calls1 @ [Kill pid] @ calls2))))))"

section \<open>FeedbackUI\<close>

text \<open>
  \<open>FeedbackResult\<close> as \<open>_submit_feedback\<close> and \<open>run\<close> build it, with the keys
  \<open>logs\<close> and \<open>interactive_feedback\<close> (the \<open>TypedDict\<close> declares the first field
  as \<open>command_logs\<close>; at run time the dictionary has the keys it is built with).
\<close>

record FeedbackResult =
  logs :: string
  interactive_feedback :: string

record FeedbackConfig =
  run_command :: string
  execute_automatically :: bool

datatype setting = SStr string | SBool bool

text \<open>
  The fields of the window object that the handlers read or write, with the widgets
  reduced to their content: \<open>command_entry\<close> and \<open>feedback_text\<close> are the texts of the
  two inputs, \<open>auto_check\<close> the state of the check box, \<open>log_text\<close> the paragraphs of
  the console, \<open>run_button\<close> the caption of the run button. \<open>settings\<close> is the
  \<open>QSettings\<close> store, keyed by group and key. \<open>process\<close> is the pid of the
  \<open>Popen\<close> object, \<open>None\<close> for Python's \<open>None\<close>.
\<close>

record FeedbackUI =
  project_directory :: string
  prompt :: string
  process :: "nat option"
  log_buffer :: "string list"
  feedback_result :: "FeedbackResult option"
  config :: FeedbackConfig
  project_group_name :: string
  command_entry :: string
  auto_check :: bool
  feedback_text :: string
  log_text :: "string list"
  run_button :: string
  command_group_visible :: bool
  settings :: "((string \<times> string) \<times> setting) list"

text \<open>
  What the program asks of the world: the platform of \<open>get_user_environment\<close>,
  psutil, \<open>subprocess.Popen(command, shell=True, cwd=..., env=...)\<close> (an exception,
  or the pid of the child), \<open>Popen.poll\<close> (the exit code, or \<open>None\<close> while the
  child runs), \<open>os.makedirs(path, exist_ok=True)\<close>, and the writing of a text to a
  file (\<open>open(path, "w")\<close>, \<open>json.dump\<close> and the closing of the file).
\<close>

record 'os world =
  platform_of :: platform
  psutil_of :: "'os psutil"
  Popen :: "string \<Rightarrow> string \<Rightarrow> environ \<Rightarrow> 'os \<Rightarrow> (py_exception + nat) \<times> 'os"
  poll :: "nat \<Rightarrow> 'os \<Rightarrow> int option \<times> 'os"
  makedirs :: "string \<Rightarrow> 'os \<Rightarrow> py_exception option \<times> 'os"
  write_file :: "string \<Rightarrow> string \<Rightarrow> 'os \<Rightarrow> py_exception option \<times> 'os"

text \<open>
  A handler takes the window and the operating system and returns the exception that
  escapes it, if any, with the window and the operating system as it leaves them.
\<close>

type_synonym 'os outcome = "py_exception option \<times> FeedbackUI \<times> 'os"

abbreviation NL :: string where
  "NL \<equiv> [CHR 0x0A]"

definition ui_update_config :: "FeedbackUI \<Rightarrow> FeedbackUI" where
  "ui_update_config ui =
     ui\<lparr>config := \<lparr>run_command = command_entry ui, execute_automatically = auto_check ui\<rparr>\<rparr>"

definition ui_append_log :: "FeedbackUI \<Rightarrow> string \<Rightarrow> FeedbackUI" where
  "ui_append_log ui text =
     ui\<lparr>log_buffer := log_buffer ui @ [text], log_text := log_text ui @ [rstrip text]\<rparr>"

definition ui_check_process_status :: "'os world \<Rightarrow> FeedbackUI \<Rightarrow> 'os \<Rightarrow> 'os outcome" where
  "ui_check_process_status W ui os =
     (case process ui of
        None \<Rightarrow> (None, ui, os)
      | Some p \<Rightarrow>
          (case poll W p os of
             (None, os') \<Rightarrow> (None, ui, os')
           | (Some exit_code, os') \<Rightarrow>
               (None,
                (ui_append_log ui (NL @ ''Process exited with code '' @ str_int exit_code @ NL))
                  \<lparr>run_button := ''Run'', process := None\<rparr>,
                os')))"

text \<open>
  \<open>_run_command\<close>. The call of \<open>get_user_environment\<close> is an argument of the
  \<open>Popen\<close> call and so inside the \<open>try\<close>, whose \<open>except Exception\<close> turns what it
  raises into a log line. A read outside the environment block is no exception and is
  not caught.
\<close>

definition ui_run_command :: "'os world \<Rightarrow> FeedbackUI \<Rightarrow> 'os \<Rightarrow> 'os outcome" where
  "ui_run_command W ui os =
     (case process ui of
        Some p \<Rightarrow>
          (case kill_tree (psutil_of W) p os of
             (Some e, os', calls) \<Rightarrow> (Some e, ui, os')
           | (None, os', calls) \<Rightarrow> (None, ui\<lparr>process := None, run_button := ''Run''\<rparr>, os'))
      | None \<Rightarrow>
          (let ui1 = ui\<lparr>log_buffer := []\<rparr>;
               command = command_entry ui1
           in if command = [] then
                (None, ui_append_log ui1 (''Please enter a command to run'' @ NL), os)
              else
                (let ui2 = (ui_append_log ui1 (''$ '' @ command @ NL))\<lparr>run_button := ''Stop''\<rparr>
                 in case get_user_environment (platform_of W) of
                      Inl e \<Rightarrow>
                        (if e = OutOfBlock then (Some OutOfBlock, ui2, os)
                         else
                           (None,
                            (ui_append_log ui2
                               (''Error running command: '' @ str_exception e @ NL))
                              \<lparr>run_button := ''Run''\<rparr>,
                            os))
                    | Inr env \<Rightarrow>
                        (case Popen W command (project_directory ui2) env os of
                           (Inl e, os') \<Rightarrow>
                             (None,
                              (ui_append_log ui2
                                 (''Error running command: '' @ str_exception e @ NL))
                                \<lparr>run_button := ''Run''\<rparr>,
                              os')
                         | (Inr pid, os') \<Rightarrow> (None, ui2\<lparr>process := Some pid\<rparr>, os')))))"

text \<open>
  \<open>closeEvent\<close>: the visibility of the command section is saved (the geometry of the
  window is left out), then a live process is killed; \<open>self.process\<close> is not reset.
\<close>

definition ui_closeEvent :: "'os world \<Rightarrow> FeedbackUI \<Rightarrow> 'os \<Rightarrow> 'os outcome" where
  "ui_closeEvent W ui os =
     (let ui1 = ui\<lparr>settings :=
                  AList.update (project_group_name ui, ''commandSectionVisible'')
                    (SBool (command_group_visible ui)) (settings ui)\<rparr>
      in case process ui1 of
           None \<Rightarrow> (None, ui1, os)
         | Some p \<Rightarrow>
             (case kill_tree (psutil_of W) p os of
                (r, os', calls) \<Rightarrow> (r, ui1, os')))"

text \<open>\<open>_submit_feedback\<close>; \<open>self.close()\<close> delivers the close event to \<open>closeEvent\<close>.\<close>

definition ui_submit_feedback :: "'os world \<Rightarrow> FeedbackUI \<Rightarrow> 'os \<Rightarrow> 'os outcome" where
  "ui_submit_feedback W ui os =
     ui_closeEvent W
       (ui\<lparr>feedback_result :=
            Some \<lparr>logs = join_empty (log_buffer ui),
                  interactive_feedback = strip (feedback_text ui)\<rparr>\<rparr>)
       os"

definition clear_logs :: "FeedbackUI \<Rightarrow> FeedbackUI" where
  "clear_logs ui = ui\<lparr>log_buffer := [], log_text := []\<rparr>"

definition ui_save_config :: "FeedbackUI \<Rightarrow> FeedbackUI" where
  "ui_save_config ui =
     ui_append_log
       (ui\<lparr>settings :=
            AList.update (project_group_name ui, ''execute_automatically'')
              (SBool (execute_automatically (config ui)))
              (AList.update (project_group_name ui, ''run_command'')
                 (SStr (run_command (config ui))) (settings ui))\<rparr>)
       (''Configuration saved for this project.'' @ NL)"

definition ui_toggle_command_section :: "FeedbackUI \<Rightarrow> FeedbackUI" where
  "ui_toggle_command_section ui =
     (let ui1 = ui\<lparr>command_group_visible := \<not> command_group_visible ui\<rparr>
      in ui1\<lparr>settings :=
              AList.update (project_group_name ui1, ''commandSectionVisible'')
                (SBool (command_group_visible ui1)) (settings ui1)\<rparr>)"

text \<open>
  The events that the Qt event loop delivers to the window: the signals of the widgets,
  a line emitted by one of the two reader threads, a tick of the status timer, and the
  closing of the window.
\<close>

datatype event =
    Run_clicked
  | Command_edited string
  | Auto_toggled bool
  | Feedback_edited string
  | Log_line string
  | Timer_tick
  | Submit_clicked
  | Clear_clicked
  | Save_clicked
  | Toggle_clicked
  | Window_closed

fun dispatch :: "'os world \<Rightarrow> event \<Rightarrow> FeedbackUI \<Rightarrow> 'os \<Rightarrow> 'os outcome" where
  "dispatch W Run_clicked ui os = ui_run_command W ui os"
| "dispatch W (Command_edited text) ui os =
     (None, ui_update_config (ui\<lparr>command_entry := text\<rparr>), os)"
| "dispatch W (Auto_toggled b) ui os = (None, ui_update_config (ui\<lparr>auto_check := b\<rparr>), os)"
| "dispatch W (Feedback_edited text) ui os = (None, ui\<lparr>feedback_text := text\<rparr>, os)"
| "dispatch W (Log_line line) ui os = (None, ui_append_log ui line, os)"
| "dispatch W Timer_tick ui os = ui_check_process_status W ui os"
| "dispatch W Submit_clicked ui os = ui_submit_feedback W ui os"
| "dispatch W Clear_clicked ui os = (None, clear_logs ui, os)"
| "dispatch W Save_clicked ui os = (None, ui_save_config ui, os)"
| "dispatch W Toggle_clicked ui os = (None, ui_toggle_command_section ui, os)"
| "dispatch W Window_closed ui os = ui_closeEvent W ui os"

text \<open>
  \<open>QApplication.instance().exec()\<close> on the events delivered until it returns. An
  exception that escapes a handler is reported by the Qt binding and the loop goes on;
  the exceptions reported are collected.
\<close>

fun exec_events ::
  "'os world \<Rightarrow> event list \<Rightarrow> FeedbackUI \<Rightarrow> 'os \<Rightarrow> py_exception list \<times> FeedbackUI \<times> 'os" where
  "exec_events W [] ui os = ([], ui, os)"
| "exec_events W (e # es) ui os =
     (case dispatch W e ui os of
        (r, ui', os') \<Rightarrow>
          (case exec_events W es ui' os' of
             (rs, ui'', os'') \<Rightarrow> ((case r of None \<Rightarrow> rs | Some x \<Rightarrow> x # rs), ui'', os'')))"

text \<open>
  \<open>FeedbackUI.run\<close> on the events of its event loop: the result, or the exception that
  escapes. A \<open>FeedbackResult\<close> has two keys and is true; \<open>None\<close> is false.
\<close>

definition ui_run ::
  "'os world \<Rightarrow> event list \<Rightarrow> FeedbackUI \<Rightarrow> 'os
     \<Rightarrow> (py_exception + FeedbackResult) \<times> FeedbackUI \<times> 'os" where
  "ui_run W events ui os =
     (case exec_events W events ui os of
        (reported, ui1, os1) \<Rightarrow>
          (case (case process ui1 of
                   None \<Rightarrow> (None, os1, [])
                 | Some p \<Rightarrow> kill_tree (psutil_of W) p os1) of
             (Some e, os2, calls) \<Rightarrow> (Inl e, ui1, os2)
           | (None, os2, calls) \<Rightarrow>
               (case feedback_result ui1 of
                  None \<Rightarrow>
                    (Inr \<lparr>logs = join_empty (log_buffer ui1), interactive_feedback = []\<rparr>,
                     ui1, os2)
                | Some r \<Rightarrow> (Inr r, ui1, os2))))"

section \<open>get\_project\_settings\_group\<close>

subsection \<open>\<open>os.path\<close> on POSIX\<close>

text \<open>\<open>s.split(sep)\<close> for a separator of one character.\<close>

fun split_sep :: "char \<Rightarrow> string \<Rightarrow> string list" where
  "split_sep sep [] = [[]]"
| "split_sep sep (c # cs) =
     (if c = sep then [] # split_sep sep cs
      else (case split_sep sep cs of
              [] \<Rightarrow> [[c]]
            | w # ws \<Rightarrow> (c # w) # ws))"

text \<open>\<open>sep.join(comps)\<close>\<close>

fun join_sep :: "string \<Rightarrow> string list \<Rightarrow> string" where
  "join_sep sep [] = []"
| "join_sep sep [w] = w"
| "join_sep sep (w # ws) = w @ sep @ join_sep sep ws"

text \<open>
  One turn of the loop of \<open>posixpath.normpath\<close> over the components: empty components
  and \<open>.\<close> are dropped, \<open>..\<close> removes the component before it where there is one to
  remove.
\<close>

definition normpath_step :: "nat \<Rightarrow> string list \<Rightarrow> string \<Rightarrow> string list" where
  "normpath_step initial_slashes new_comps component =
     (if component = [] \<or> component = ''.'' then new_comps
      else if component \<noteq> ''..'' \<or> (initial_slashes = 0 \<and> new_comps = [])
                \<or> (new_comps \<noteq> [] \<and> last new_comps = ''..'')
           then new_comps @ [component]
      else if new_comps \<noteq> [] then butlast new_comps
      else new_comps)"

definition normpath :: "string \<Rightarrow> string" where
  "normpath path =
     (if path = [] then ''.''
      else
        (let initial_slashes =
               (if take 1 path = ''/'' then
                  (if take 2 path = ''//'' \<and> take 3 path \<noteq> ''///'' then 2 else 1)
                else (0::nat));
             comps = foldl (normpath_step initial_slashes) [] (split_sep CHR ''/'' path);
             path' = replicate initial_slashes CHR ''/'' @ join_sep ''/'' comps
         in if path' = [] then ''.'' else path'))"

text \<open>\<open>posixpath.basename(p)\<close>: what follows the last slash.\<close>

definition basename :: "string \<Rightarrow> string" where
  "basename p = rev (takeWhile (\<lambda>c. c \<noteq> CHR ''/'') (rev p))"

text \<open>
  \<open>posixpath.dirname(p)\<close>: what precedes the last slash, without its trailing slashes
  unless it consists of slashes only.
\<close>

definition dirname :: "string \<Rightarrow> string" where
  "dirname p =
     (let head = rev (dropWhile (\<lambda>c. c \<noteq> CHR ''/'') (rev p))
      in if head \<noteq> [] \<and> head \<noteq> replicate (length head) CHR ''/''
         then rev (dropWhile (\<lambda>c. c = CHR ''/'') (rev head))
         else head)"

subsection \<open>\<open>hashlib.md5\<close>\<close>

text \<open>
  MD5 as RFC 1321 defines it, on bytes. \<open>md5_K\<close> is the table of the integer parts of
  \<open>2^32 * abs (sin (i + 1))\<close>, \<open>md5_s\<close> the table of the rotations.
\<close>

type_synonym u8 = "8 word"
type_synonym u32 = "32 word"

definition md5_K :: "u32 list" where
  "md5_K =
    [0xd76aa478, 0xe8c7b756, 0x242070db, 0xc1bdceee,
     0xf57c0faf, 0x4787c62a, 0xa8304613, 0xfd469501,
     0x698098d8, 0x8b44f7af, 0xffff5bb1, 0x895cd7be,
     0x6b901122, 0xfd987193, 0xa679438e, 0x49b40821,
     0xf61e2562, 0xc040b340, 0x265e5a51, 0xe9b6c7aa,
     0xd62f105d, 0x02441453, 0xd8a1e681, 0xe7d3fbc8,
     0x21e1cde6, 0xc33707d6, 0xf4d50d87, 0x455a14ed,
     0xa9e3e905, 0xfcefa3f8, 0x676f02d9, 0x8d2a4c8a,
     0xfffa3942, 0x8771f681, 0x6d9d6122, 0xfde5380c,
     0xa4beea44, 0x4bdecfa9, 0xf6bb4b60, 0xbebfbc70,
     0x289b7ec6, 0xeaa127fa, 0xd4ef3085, 0x04881d05,
     0xd9d4d039, 0xe6db99e5, 0x1fa27cf8, 0xc4ac5665,
     0xf4292244, 0x432aff97, 0xab9423a7, 0xfc93a039,
     0x655b59c3, 0x8f0ccc92, 0xffeff47d, 0x85845dd1,
     0x6fa87e4f, 0xfe2ce6e0, 0xa3014314, 0x4e0811a1,
     0xf7537e82, 0xbd3af235, 0x2ad7d2bb, 0xeb86d391]"

definition md5_s :: "nat list" where
  "md5_s =
    [7, 12, 17, 22, 7, 12, 17, 22, 7, 12, 17, 22, 7, 12, 17, 22,
     5, 9, 14, 20, 5, 9, 14, 20, 5, 9, 14, 20, 5, 9, 14, 20,
     4, 11, 16, 23, 4, 11, 16, 23, 4, 11, 16, 23, 4, 11, 16, 23,
     6, 10, 15, 21, 6, 10, 15, 21, 6, 10, 15, 21, 6, 10, 15, 21]"

definition rotl32 :: "u32 \<Rightarrow> nat \<Rightarrow> u32" where
  "rotl32 x n = push_bit n x OR drop_bit (32 - n) x"

definition md5_F :: "nat \<Rightarrow> u32 \<Rightarrow> u32 \<Rightarrow> u32 \<Rightarrow> u32" where
  "md5_F i b c d =
     (if i < 16 then (b AND c) OR (NOT b AND d)
      else if i < 32 then (d AND b) OR (NOT d AND c)
      else if i < 48 then b XOR c XOR d
      else c XOR (b OR NOT d))"

definition md5_g :: "nat \<Rightarrow> nat" where
  "md5_g i =
     (if i < 16 then i
      else if i < 32 then (5 * i + 1) mod 16
      else if i < 48 then (3 * i + 5) mod 16
      else (7 * i) mod 16)"

type_synonym md5_state = "u32 \<times> u32 \<times> u32 \<times> u32"

definition md5_round :: "u32 list \<Rightarrow> md5_state \<Rightarrow> nat \<Rightarrow> md5_state" where
  "md5_round M st i =
     (case st of
        (a, b, c, d) \<Rightarrow>
          (d, b + rotl32 (md5_F i b c d + a + md5_K ! i + M ! md5_g i) (md5_s ! i), b, c))"

text \<open>A little-endian word from its bytes, and the \<open>k\<close> little-endian bytes of a number.\<close>

definition le_word :: "u8 list \<Rightarrow> u32" where
  "le_word bs = foldr (\<lambda>b w. ucast b OR push_bit 8 w) bs 0"

definition le_bytes :: "nat \<Rightarrow> nat \<Rightarrow> u8 list" where
  "le_bytes k n = map (\<lambda>i. of_nat (n div 256 ^ i mod 256)) [0..<k]"

fun chunks :: "nat \<Rightarrow> 'a list \<Rightarrow> 'a list list" where
  "chunks n [] = []"
| "chunks n (x # xs) =
     (if n = 0 then [] else take n (x # xs) # chunks n (drop n (x # xs)))"

definition md5_block :: "md5_state \<Rightarrow> u8 list \<Rightarrow> md5_state" where
  "md5_block st block =
     (let M = map le_word (chunks 4 block)
      in case (st, foldl (md5_round M) st [0..<64]) of
           ((a0, b0, c0, d0), (a, b, c, d)) \<Rightarrow> (a0 + a, b0 + b, c0 + c, d0 + d))"

definition md5_pad :: "u8 list \<Rightarrow> u8 list" where
  "md5_pad msg =
     msg @ [0x80] @ replicate ((119 - length msg mod 64) mod 64) 0
       @ le_bytes 8 (8 * length msg mod 2 ^ 64)"

definition md5_digest :: "u8 list \<Rightarrow> u8 list" where
  "md5_digest msg =
     (case foldl md5_block (0x67452301, 0xefcdab89, 0x98badcfe, 0x10325476)
             (chunks 64 (md5_pad msg)) of
        (a, b, c, d) \<Rightarrow> concat (map (\<lambda>w. le_bytes 4 (unat w)) [a, b, c, d]))"

definition hex_digit :: "nat \<Rightarrow> char" where
  "hex_digit d = ''0123456789abcdef'' ! d"

definition hex_byte :: "u8 \<Rightarrow> string" where
  "hex_byte b = [hex_digit (unat b div 16), hex_digit (unat b mod 16)]"

definition md5_hexdigest :: "u8 list \<Rightarrow> string" where
  "md5_hexdigest msg = concat (map hex_byte (md5_digest msg))"

text \<open>\<open>s.encode('utf-8')\<close> for code points below 256.\<close>

definition encode_utf8 :: "string \<Rightarrow> u8 list" where
  "encode_utf8 s =
     concat (map (\<lambda>c. let n = (of_char c :: nat)
                       in if n < 128 then [of_nat n]
                          else [of_nat (192 + n div 64), of_nat (128 + n mod 64)]) s)"

subsection \<open>The settings group of a project\<close>

definition get_project_settings_group :: "string \<Rightarrow> string" where
  "get_project_settings_group project_dir =
     (let basename = basename (normpath project_dir);
          full_hash = take 8 (md5_hexdigest (encode_utf8 project_dir))
      in basename @ ''_'' @ full_hash)"

section \<open>The window's constructor, feedback\_ui and the command line\<close>

type_synonym qsettings = "((string \<times> string) \<times> setting) list"

text \<open>
  \<open>FeedbackUI.__init__\<close>: the settings of the project are read from the store under
  the group of the project directory, the widgets are filled from them, and the command
  is run at once when \<open>execute_automatically\<close> is stored as true.
\<close>

definition FeedbackUI_init ::
  "'os world \<Rightarrow> qsettings \<Rightarrow> string \<Rightarrow> string \<Rightarrow> 'os \<Rightarrow> 'os outcome" where
  "FeedbackUI_init W stored project_dir prompt_text os =
     (let group = get_project_settings_group project_dir;
          loaded_run_command =
            (case map_of stored (group, ''run_command'') of Some (SStr s) \<Rightarrow> s | _ \<Rightarrow> []);
          loaded_execute_auto =
            (case map_of stored (group, ''execute_automatically'') of
               Some (SBool b) \<Rightarrow> b | _ \<Rightarrow> False);
          command_section_visible =
            (case map_of stored (group, ''commandSectionVisible'') of
               Some (SBool b) \<Rightarrow> b | _ \<Rightarrow> False);
          ui = \<lparr>project_directory = project_dir,
                prompt = prompt_text,
                process = None,
                log_buffer = [],
                feedback_result = None,
                config = \<lparr>run_command = loaded_run_command,
                           execute_automatically = loaded_execute_auto\<rparr>,
                project_group_name = group,
                command_entry = loaded_run_command,
                auto_check = loaded_execute_auto,
                feedback_text = [],
                log_text = [],
                run_button = ''Run'',
                command_group_visible = command_section_visible,
                settings = stored\<rparr>
      in if execute_automatically (config ui) then ui_run_command W ui os
         else (None, ui, os))"

text \<open>
  \<open>json.dump(result, f)\<close> with the defaults of \<open>json\<close>: every character outside
  the printable ASCII range is escaped.
\<close>

definition hex4 :: "nat \<Rightarrow> string" where
  "hex4 n =
     [hex_digit (n div 4096 mod 16), hex_digit (n div 256 mod 16),
      hex_digit (n div 16 mod 16), hex_digit (n mod 16)]"

definition json_escape :: "char \<Rightarrow> string" where
  "json_escape c =
     (if c = CHR 0x22 then [CHR 0x5C, CHR 0x22]
      else if c = CHR 0x5C then [CHR 0x5C, CHR 0x5C]
      else if c = CHR 0x0A then [CHR 0x5C, CHR ''n'']
      else if c = CHR 0x0D then [CHR 0x5C, CHR ''r'']
      else if c = CHR 0x09 then [CHR 0x5C, CHR ''t'']
      else if c = CHR 0x0C then [CHR 0x5C, CHR ''f'']
      else if c = CHR 0x08 then [CHR 0x5C, CHR ''b'']
      else if 32 \<le> (of_char c :: nat) \<and> (of_char c :: nat) \<le> 126 then [c]
      else [CHR 0x5C, CHR ''u''] @ hex4 (of_char c))"

definition json_string :: "string \<Rightarrow> string" where
  "json_string s = [CHR 0x22] @ concat (map json_escape s) @ [CHR 0x22]"

definition json_dumps :: "FeedbackResult \<Rightarrow> string" where
  "json_dumps r =
     ''{'' @ json_string ''logs'' @ '': '' @ json_string (logs r) @ '', ''
       @ json_string ''interactive_feedback'' @ '': '' @ json_string (interactive_feedback r)
       @ ''}''"

text \<open>
  \<open>feedback_ui(project_directory, prompt, output_file)\<close> on the stored settings and
  the events of the session. \<open>output_file and result\<close> is true when \<open>output_file\<close> is
  a string that is not empty (the result is a dictionary of two keys and is true).
\<close>

definition feedback_ui ::
  "'os world \<Rightarrow> qsettings \<Rightarrow> event list \<Rightarrow> string \<Rightarrow> string \<Rightarrow> string option \<Rightarrow> 'os
     \<Rightarrow> (py_exception + FeedbackResult option) \<times> 'os" where
  "feedback_ui W stored events project_dir prompt_text output_file os =
     (case FeedbackUI_init W stored project_dir prompt_text os of
        (Some e, ui, os1) \<Rightarrow> (Inl e, os1)
      | (None, ui, os1) \<Rightarrow>
          (case ui_run W events ui os1 of
             (Inl e, ui', os2) \<Rightarrow> (Inl e, os2)
           | (Inr result, ui', os2) \<Rightarrow>
               (case output_file of
                  None \<Rightarrow> (Inr (Some result), os2)
                | Some file \<Rightarrow>
                    (if file = [] then (Inr (Some result), os2)
                     else
                       (case makedirs W (if dirname file \<noteq> [] then dirname file else ''.'')
                               os2 of
                          (Some e, os3) \<Rightarrow> (Inl e, os3)
                        | (None, os3) \<Rightarrow>
                            (case write_file W file (json_dumps result) os3 of
                               (Some e, os4) \<Rightarrow> (Inl e, os4)
                             | (None, os4) \<Rightarrow> (Inr None, os4)))))))"

text \<open>
  The script body under \<open>__main__\<close>, on the parsed arguments: what the two \<open>print\<close>
  calls write, or the exception that ends the program.
\<close>

definition main ::
  "'os world \<Rightarrow> qsettings \<Rightarrow> event list \<Rightarrow> string \<Rightarrow> string \<Rightarrow> string option \<Rightarrow> 'os
     \<Rightarrow> (py_exception + string list) \<times> 'os" where
  "main W stored events project_dir prompt_text output_file os =
     (case feedback_ui W stored events project_dir prompt_text output_file os of
        (Inl e, os') \<Rightarrow> (Inl e, os')
      | (Inr None, os') \<Rightarrow> (Inr [], os')
      | (Inr (Some result), os') \<Rightarrow>
          (Inr [NL @ ''Logs collected: '' @ NL @ logs result @ NL,
                NL @ ''Feedback received:'' @ NL @ interactive_feedback result @ NL],
           os'))"


section \<open>A sample machine\<close>

text \<open>
  A small operating system on which the definitions can be run: a process table that
  lists, for each live pid, all its descendants; the pids that refuse a signal; and the
  files written. \<open>sample_psutil\<close> answers from the table; a signal that is not refused
  removes the process from it.
\<close>

record machine =
  procs :: "(nat \<times> nat list) list"
  denied :: "nat list"
  files :: "(string \<times> string) list"

definition signal_proc :: "nat \<Rightarrow> machine \<Rightarrow> psutil_error option \<times> machine" where
  "signal_proc pid m =
     (if map_of (procs m) pid = None then (Some NoSuchProcess, m)
      else if pid \<in> set (denied m) then (Some AccessDenied, m)
      else (None, m\<lparr>procs := filter (\<lambda>p. fst p \<noteq> pid) (procs m)\<rparr>))"

definition sample_psutil :: "machine psutil" where
  "sample_psutil =
     \<lparr>psutil_Process =
        (\<lambda>pid m. if map_of (procs m) pid = None then Some NoSuchProcess else None),
      psutil_children =
        (\<lambda>pid m. case map_of (procs m) pid of
                    None \<Rightarrow> Inl NoSuchProcess
                  | Some cs \<Rightarrow> Inr cs),
      psutil_kill = signal_proc,
      psutil_is_running = (\<lambda>pid m. Inr (map_of (procs m) pid \<noteq> None)),
      psutil_terminate = signal_proc\<rparr>"

definition sample_platform :: platform where
  "sample_platform =
     \<lparr>sys_platform = ''linux'',
      os_environ = [(''HOME'', ''/home/user'')],
      OpenProcessToken = True,
      CreateEnvironmentBlock = None\<rparr>"

text \<open>
  On the sample machine every command starts a child with pid 100 and no descendants,
  and the child has exited with code 0 whenever it is polled.
\<close>

definition sample_world :: "machine world" where
  "sample_world =
     \<lparr>platform_of = sample_platform,
      psutil_of = sample_psutil,
      Popen = (\<lambda>command cwd env m. (Inr 100, m\<lparr>procs := (100, []) # procs m\<rparr>)),
      poll = (\<lambda>pid m. (Some 0, m\<lparr>procs := filter (\<lambda>p. fst p \<noteq> pid) (procs m)\<rparr>)),
      makedirs = (\<lambda>path m. (None, m)),
      write_file = (\<lambda>path text m. (None, m\<lparr>files := AList.update path text (files m)\<rparr>))\<rparr>"

definition empty_machine :: machine where
  "empty_machine = \<lparr>procs = [], denied = [], files = []\<rparr>"

text \<open>The window of a project without stored settings, before any event.\<close>

definition idle_ui :: FeedbackUI where
  "idle_ui =
     \<lparr>project_directory = ''/a/b/proj'',
      prompt = ''I implemented the changes you requested.'',
      process = None,
      log_buffer = [],
      feedback_result = None,
      config = \<lparr>run_command = [], execute_automatically = False\<rparr>,
      project_group_name = get_project_settings_group ''/a/b/proj'',
      command_entry = [],
      auto_check = False,
      feedback_text = [],
      log_text = [],
      run_button = ''Run'',
      command_group_visible = False,
      settings = []\<rparr>"

text \<open>A Windows platform on which the process token cannot be opened.\<close>

definition no_token_platform :: platform where
  "no_token_platform =
     \<lparr>sys_platform = ''win32'',
      os_environ = [],
      OpenProcessToken = False,
      CreateEnvironmentBlock = None\<rparr>"

text \<open>
  A Windows platform whose environment block holds the entries \<open>A=1\<close>, \<open>NOEQ\<close> and
  \<open>B=2\<close>, each closed by a null character, and the closing null character.
\<close>

definition noeq_platform :: platform where
  "noeq_platform =
     \<lparr>sys_platform = ''win32'',
      os_environ = [],
      OpenProcessToken = True,
      CreateEnvironmentBlock =
        Some (''A=1'' @ [CHR 0x00] @ ''NOEQ'' @ [CHR 0x00] @ ''B=2'' @ [CHR 0x00, CHR 0x00])\<rparr>"

text \<open>
  A machine with a tree of three processes: 100 has the child 101, which has the child
  102.
\<close>

definition tree_machine :: machine where
  "tree_machine =
     \<lparr>procs = [(100, [101, 102]), (101, [102]), (102, [])], denied = [], files = []\<rparr>"

text \<open>The sample machine on the Windows platform whose process token cannot be opened.\<close>

definition no_token_world :: "machine world" where
  "no_token_world = sample_world\<lparr>platform_of := no_token_platform\<rparr>"

text \<open>
  The session of the example: \<open>echo hello\<close> is entered and run, its line arrives, the
  status timer fires, the feedback is typed and sent.
\<close>

definition echo_session :: "event list" where
  "echo_session =
     [Command_edited ''echo hello'', Run_clicked, Log_line (''hello'' @ NL), Timer_tick,
      Feedback_edited '' great work '', Submit_clicked]"

text \<open>
  The first entry that \<open>_run_command\<close> appends when it starts a run: the request for a
  command when the entry is empty, the echo of the command otherwise.
\<close>

definition first_line :: "FeedbackUI \<Rightarrow> string" where
  "first_line ui =
     (if command_entry ui = [] then ''Please enter a command to run'' @ NL
      else ''$ '' @ command_entry ui @ NL)"

abbreviation DQ :: string where
  "DQ \<equiv> [CHR 0x22]"

abbreviation BS :: string where
  "BS \<equiv> [CHR 0x5C]"


text \<open>
  The layout of an environment block: the entries, each closed by a null character,
  and a null character more. \<open>split_entry\<close> cuts an entry at its first \<open>=\<close>; an
  entry is well formed when it is not empty, holds no null character and holds a
  \<open>=\<close>.
\<close>

definition encode_block :: "string list \<Rightarrow> string" where
  "encode_block entries = concat (map (\<lambda>e. e @ [CHR 0x00]) entries) @ [CHR 0x00]"

definition split_entry :: "string \<Rightarrow> string \<times> string" where
  "split_entry e =
     (takeWhile (\<lambda>c. c \<noteq> CHR ''='') e, tl (dropWhile (\<lambda>c. c \<noteq> CHR ''='') e))"

definition well_formed_entry :: "string \<Rightarrow> bool" where
  "well_formed_entry e = (e \<noteq> [] \<and> CHR 0x00 \<notin> set e \<and> CHR ''='' \<in> set e)"


section \<open>Properties\<close>

lemmas ui_defs =
  ui_run_def ui_run_command_def ui_append_log_def ui_check_process_status_def
  ui_submit_feedback_def ui_closeEvent_def ui_update_config_def clear_logs_def
  ui_save_config_def ui_toggle_command_section_def

lemma strip_great_work: "strip '' great work '' = ''great work''"
  by (simp add: strip_def lstrip_def rstrip_def isspace_def)

lemma str_int_0: "str_int 0 = ''0''"
  by (simp add: str_int_def str_nat.simps digit_char_def)

lemma get_env_sample: "get_user_environment sample_platform = Inr [(''HOME'', ''/home/user'')]"
  by (simp add: get_user_environment_def sample_platform_def)

subsection \<open>The result of a session\<close>

text \<open>
  C1 (as amended). In a session where the command \<open>echo hello\<close> is entered and run with
  no process live, the environment is resolved, the child starts, its line \<open>hello\<close> is
  delivered, the status timer then finds exit code 0, and \<open> great work \<close> is submitted,
  \<open>run\<close> returns the result whose \<open>logs\<close> is the concatenation of the entries
  appended since the run began and whose \<open>interactive_feedback\<close> is the text without
  its surrounding white space. The entry that reports the exit starts with a newline of
  its own, so \<open>logs\<close> has an empty line before \<open>Process exited with code 0\<close>.
\<close>

theorem C1_echo_hello_session:
  assumes "process ui = None"
    and "get_user_environment (platform_of W) = Inr env"
    and "Popen W ''echo hello'' (project_directory ui) env os = (Inr pid, os1)"
    and "poll W pid os1 = (Some 0, os2)"
  shows "fst (ui_run W
                [Command_edited ''echo hello'', Run_clicked, Log_line (''hello'' @ NL),
                 Timer_tick, Feedback_edited '' great work '', Submit_clicked] ui os)
         = Inr \<lparr>logs = ''$ echo hello'' @ NL @ ''hello'' @ NL @ NL
                         @ ''Process exited with code 0'' @ NL,
                interactive_feedback = ''great work''\<rparr>"
  using assms
  by (simp add: ui_defs Let_def join_empty_def strip_great_work str_int_0)

text \<open>C1, witness: the session on the sample machine, from the idle window.\<close>

theorem C1_echo_hello_session_witness:
  "process idle_ui = None
   \<and> get_user_environment (platform_of sample_world) = Inr [(''HOME'', ''/home/user'')]
   \<and> Popen sample_world ''echo hello'' (project_directory idle_ui) [(''HOME'', ''/home/user'')]
        empty_machine = (Inr 100, empty_machine\<lparr>procs := [(100, [])]\<rparr>)
   \<and> poll sample_world 100 (empty_machine\<lparr>procs := [(100, [])]\<rparr>) = (Some 0, empty_machine)
   \<and> fst (ui_run sample_world
             [Command_edited ''echo hello'', Run_clicked, Log_line (''hello'' @ NL),
              Timer_tick, Feedback_edited '' great work '', Submit_clicked]
             idle_ui empty_machine)
       = Inr \<lparr>logs = ''$ echo hello'' @ NL @ ''hello'' @ NL @ NL
                       @ ''Process exited with code 0'' @ NL,
              interactive_feedback = ''great work''\<rparr>"
proof -
  have a: "process idle_ui = None"
    by (simp add: idle_ui_def)
  have b: "get_user_environment (platform_of sample_world) = Inr [(''HOME'', ''/home/user'')]"
    by (simp add: get_user_environment_def sample_world_def sample_platform_def)
  have c: "Popen sample_world ''echo hello'' (project_directory idle_ui)
             [(''HOME'', ''/home/user'')] empty_machine
           = (Inr 100, empty_machine\<lparr>procs := [(100, [])]\<rparr>)"
    by (simp add: sample_world_def empty_machine_def)
  have d: "poll sample_world 100 (empty_machine\<lparr>procs := [(100, [])]\<rparr>)
           = (Some 0, empty_machine)"
    by (simp add: sample_world_def empty_machine_def)
  from C1_echo_hello_session [OF a b c d] a b c d show ?thesis
    by simp
qed

text \<open>
  C1, counterexample: on the sample machine the result of that session is not the one
  with \<open>logs\<close> equal to the three lines without an empty line between them.
\<close>

theorem C1_logs_counterexample:
  "fst (ui_run sample_world
          [Command_edited ''echo hello'', Run_clicked, Log_line (''hello'' @ NL),
           Timer_tick, Feedback_edited '' great work '', Submit_clicked]
          idle_ui empty_machine)
     \<noteq> Inr \<lparr>logs = ''$ echo hello'' @ NL @ ''hello'' @ NL @ ''Process exited with code 0'' @ NL,
             interactive_feedback = ''great work''\<rparr>"
  by (simp add: ui_defs Let_def join_empty_def strip_great_work str_int_0 get_env_sample
        idle_ui_def sample_world_def empty_machine_def)

subsection \<open>Starting a command\<close>

text \<open>
  C6 (as amended). When no process is live and the command entry is the empty string,
  \<open>_run_command\<close> starts nothing: no exception escapes, \<open>process\<close> stays \<open>None\<close>,
  the operating system is not touched, and the buffer, cleared first, holds the one
  entry \<open>Please enter a command to run\<close>. Only the empty string is refused: a command
  of white space is echoed and handed to the shell like any other.
\<close>

theorem C6_empty_command_refused:
  assumes "process ui = None" and "command_entry ui = []"
  shows "ui_run_command W ui os
         = (None,
            ui\<lparr>log_buffer := [''Please enter a command to run'' @ NL],
               log_text := log_text ui @ [''Please enter a command to run'']\<rparr>,
            os)"
  using assms
  by (simp add: ui_run_command_def ui_append_log_def Let_def rstrip_def isspace_def)

text \<open>C6, witness: the idle window on the sample machine.\<close>

theorem C6_empty_command_refused_witness:
  "process idle_ui = None \<and> command_entry idle_ui = []
   \<and> ui_run_command sample_world idle_ui empty_machine
       = (None,
          idle_ui\<lparr>log_buffer := [''Please enter a command to run'' @ NL],
                  log_text := log_text idle_ui @ [''Please enter a command to run'']\<rparr>,
          empty_machine)"
proof -
  have a: "process idle_ui = None" and b: "command_entry idle_ui = []"
    by (simp_all add: idle_ui_def)
  from C6_empty_command_refused [OF a b, of sample_world empty_machine] a b show ?thesis
    by simp
qed

text \<open>
  C6, counterexample: with three spaces in the command entry the child is started (pid
  100 is in the process table and in \<open>process\<close>) and the buffer holds the echo of the
  blank command, not the request for a command.
\<close>

theorem C6_blank_command_counterexample:
  "(case ui_run_command sample_world (idle_ui\<lparr>command_entry := ''   ''\<rparr>) empty_machine of
      (raised, ui', os') \<Rightarrow>
        process ui' = Some 100 \<and> log_buffer ui' = [''$    '' @ NL]
        \<and> procs os' = [(100, [])])"
  by (simp add: ui_run_command_def ui_append_log_def Let_def get_env_sample
        idle_ui_def sample_world_def empty_machine_def)

text \<open>
  C3 (as amended). On Windows, when the process token cannot be opened or the
  environment block cannot be built, \<open>get_user_environment\<close> raises a
  \<open>RuntimeError\<close> and returns no mapping, empty or not. The error does not reach the
  caller of \<open>_run_command\<close>: the handler of spawn errors catches it, the entry
  \<open>Error running command: \<close> with the message is appended after the echo of the
  command, no process is started, and \<open>_run_command\<close> returns normally.
\<close>

theorem C3_resolution_failure_logged:
  assumes "sys_platform (platform_of W) = ''win32''"
    and "\<not> OpenProcessToken (platform_of W) \<or> CreateEnvironmentBlock (platform_of W) = None"
    and "process ui = None"
    and "command_entry ui \<noteq> []"
    and "message = (if \<not> OpenProcessToken (platform_of W) then ''Failed to open process token''
                    else ''Failed to create environment block'')"
  shows "get_user_environment (platform_of W) = Inl (RuntimeError message)
       \<and> (case ui_run_command W ui os of
             (raised, ui', os') \<Rightarrow>
               raised = None \<and> process ui' = None \<and> os' = os
               \<and> log_buffer ui'
                   = [''$ '' @ command_entry ui @ NL,
                      ''Error running command: '' @ message @ NL])"
proof -
  from assms(1,2,5) have env: "get_user_environment (platform_of W) = Inl (RuntimeError message)"
    by (auto simp: get_user_environment_def)
  with assms(3,4) show ?thesis
    by (simp add: ui_run_command_def ui_append_log_def Let_def)
qed

text \<open>C3, witness: the sample machine on the platform without a process token.\<close>

theorem C3_resolution_failure_logged_witness:
  "sys_platform (platform_of no_token_world) = ''win32''
   \<and> \<not> OpenProcessToken (platform_of no_token_world)
   \<and> process (idle_ui\<lparr>command_entry := ''echo hello''\<rparr>) = None
   \<and> get_user_environment (platform_of no_token_world)
       = Inl (RuntimeError ''Failed to open process token'')
   \<and> (case ui_run_command no_token_world (idle_ui\<lparr>command_entry := ''echo hello''\<rparr>)
              empty_machine of
         (raised, ui', os') \<Rightarrow>
           raised = None \<and> process ui' = None \<and> os' = empty_machine
           \<and> log_buffer ui'
               = [''$ echo hello'' @ NL,
                  ''Error running command: Failed to open process token'' @ NL])"
proof -
  have a: "sys_platform (platform_of no_token_world) = ''win32''"
    by (simp add: no_token_world_def no_token_platform_def)
  have b: "\<not> OpenProcessToken (platform_of no_token_world)"
    by (simp add: no_token_world_def no_token_platform_def)
  then have b': "\<not> OpenProcessToken (platform_of no_token_world)
      \<or> CreateEnvironmentBlock (platform_of no_token_world) = None"
    by simp
  have c: "process (idle_ui\<lparr>command_entry := ''echo hello''\<rparr>) = None"
    by (simp add: idle_ui_def)
  have d: "command_entry (idle_ui\<lparr>command_entry := ''echo hello''\<rparr>) \<noteq> []"
    by simp
  from C3_resolution_failure_logged [OF a b' c d refl, of empty_machine] a b c
  show ?thesis
    by simp
qed

text \<open>
  C3, counterexample: on that platform a session that runs \<open>echo hello\<close> and is then
  closed ends with a result; the failure of the resolution is a line of its \<open>logs\<close>.
\<close>

theorem C3_failure_not_propagated_counterexample:
  "fst (ui_run no_token_world [Command_edited ''echo hello'', Run_clicked, Window_closed]
          idle_ui empty_machine)
   = Inr \<lparr>logs = ''$ echo hello'' @ NL
                   @ ''Error running command: Failed to open process token'' @ NL,
          interactive_feedback = []\<rparr>"
  by (simp add: ui_defs Let_def join_empty_def get_user_environment_def
        no_token_world_def no_token_platform_def idle_ui_def sample_world_def)

subsection \<open>Submitting\<close>

text \<open>
  C5 (as amended). Every call of \<open>_submit_feedback\<close> stores a result built from the
  buffer and the feedback text as they are at that call, whatever was stored before:
  the handler has no guard, and a second call replaces the result of the first.
\<close>

theorem C5_submit_overwrites:
  "feedback_result (fst (snd (ui_submit_feedback W ui os)))
   = Some \<lparr>logs = join_empty (log_buffer ui),
           interactive_feedback = strip (feedback_text ui)\<rparr>"
  by (simp add: ui_submit_feedback_def ui_closeEvent_def Let_def
        split: option.split prod.split)

text \<open>
  C5, counterexample: \<open>first\<close> is submitted, then \<open>second\<close>; the result stored after
  the second call is another one than the result stored by the first.
\<close>

theorem C5_second_submit_counterexample:
  "(case ui_submit_feedback sample_world (idle_ui\<lparr>feedback_text := ''first''\<rparr>)
           empty_machine of
      (r1, ui1, os1) \<Rightarrow>
        (case ui_submit_feedback sample_world (ui1\<lparr>feedback_text := ''second''\<rparr>) os1 of
           (r2, ui2, os2) \<Rightarrow>
             feedback_result ui1 = Some \<lparr>logs = [], interactive_feedback = ''first''\<rparr>
             \<and> feedback_result ui2 = Some \<lparr>logs = [], interactive_feedback = ''second''\<rparr>
             \<and> feedback_result ui2 \<noteq> feedback_result ui1))"
  by (simp add: ui_submit_feedback_def ui_closeEvent_def Let_def join_empty_def
        strip_def lstrip_def rstrip_def isspace_def idle_ui_def)

subsection \<open>The environment block\<close>

text \<open>
  C2, at the failing input. The block holds \<open>A=1\<close>, \<open>NOEQ\<close> and \<open>B=2\<close>. The entry
  without \<open>=\<close> is not skipped: \<open>current_string.index("=")\<close> raises \<open>ValueError\<close>
  before the test \<open>equal_index == -1\<close> is reached, and the resolution fails instead of
  returning the two well-formed entries.
\<close>

theorem C2_entry_without_equals_raises:
  "get_user_environment noeq_platform = Inl (ValueError ''substring not found'')"
  by (simp add: get_user_environment_def noeq_platform_def parse_block.simps read_string.simps
        str_index_def)

text \<open>Without the entry \<open>NOEQ\<close> the same block is parsed into its two entries.\<close>

lemma well_formed_block_parsed:
  "parse_block (''A=1'' @ [CHR 0x00] @ ''B=2'' @ [CHR 0x00, CHR 0x00]) 0 []
   = Inr [(''A'', ''1''), (''B'', ''2'')]"
  by (simp add: parse_block.simps read_string.simps str_index_def)

text \<open>An entry is split at its first \<open>=\<close>: the value keeps every later one.\<close>

lemma first_equals_splits:
  "parse_block (''K=a=b'' @ [CHR 0x00, CHR 0x00]) 0 [] = Inr [(''K'', ''a=b'')]"
  by (simp add: parse_block.simps read_string.simps str_index_def)

text \<open>
  On a block laid out from well-formed entries the loop returns the dictionary of the
  entries, each split at its first \<open>=\<close>, a later entry replacing an earlier one of
  the same key. An entry without \<open>=\<close> that follows well-formed entries makes the
  loop raise, whatever comes after it.
\<close>

lemma read_string_entry:
  "CHR 0x00 \<notin> set e \<Longrightarrow>
   read_string (pre @ e @ CHR 0x00 # rest) (length pre) cur = Some (cur @ e, length pre + length e)"
proof (induction e arbitrary: pre cur)
  case Nil
  then show ?case
    by (simp add: read_string.simps)
next
  case (Cons x xs)
  then have x: "x \<noteq> CHR 0x00" and xs: "CHR 0x00 \<notin> set xs"
    by auto
  have "read_string (pre @ (x # xs) @ CHR 0x00 # rest) (length pre) cur
        = read_string ((pre @ [x]) @ xs @ CHR 0x00 # rest) (length (pre @ [x])) (cur @ [x])"
    using x by (subst read_string.simps) (simp add: nth_append)
  also have "\<dots> = Some ((cur @ [x]) @ xs, length (pre @ [x]) + length xs)"
    by (rule Cons.IH [OF xs])
  finally show ?case
    by simp
qed

lemma find_first_None: "find_first c s = None \<longleftrightarrow> c \<notin> set s"
  by (induction s) auto

lemma find_first_Some:
  "c \<in> set s \<Longrightarrow> find_first c s = Some (length (takeWhile (\<lambda>x. x \<noteq> c) s))"
  by (induction s) auto

lemma take_first: "take (length (takeWhile P e)) e = takeWhile P e"
  by (induction e) auto

lemma drop_first: "drop (Suc (length (takeWhile P e))) e = tl (dropWhile P e)"
  by (induction e) auto

lemma parse_block_step:
  assumes "well_formed_entry e"
  shows "parse_block (pre @ e @ CHR 0x00 # rest) (length pre) r
         = parse_block ((pre @ e @ [CHR 0x00]) @ rest) (length (pre @ e @ [CHR 0x00]))
             (AList.update (fst (split_entry e)) (snd (split_entry e)) r)"
proof -
  from assms have e: "e \<noteq> []" "CHR 0x00 \<notin> set e" "CHR ''='' \<in> set e"
    by (simp_all add: well_formed_entry_def)
  have rd: "read_string (pre @ e @ CHR 0x00 # rest) (length pre) [] = Some (e, length pre + length e)"
    using read_string_entry [OF e(2), of pre rest "[]"] by simp
  have ix: "str_index e CHR ''='' = Inr (int (length (takeWhile (\<lambda>x. x \<noteq> CHR ''='') e)))"
    by (simp add: str_index_def find_first_Some [OF e(3)])
  show ?thesis
    by (subst parse_block.simps)
       (simp add: rd ix e(1) split_entry_def take_first drop_first)
qed

lemma parse_block_well_formed:
  assumes "\<forall>e \<in> set entries. well_formed_entry e"
  shows "parse_block (pre @ encode_block entries) (length pre) r
         = Inr (foldl (\<lambda>r e. AList.update (fst (split_entry e)) (snd (split_entry e)) r) r entries)"
  using assms
proof (induction entries arbitrary: pre r)
  case Nil
  have "read_string (pre @ [] @ CHR 0x00 # []) (length pre) [] = Some ([] @ [], length pre + length ([] :: string))"
    by (rule read_string_entry) simp
  then show ?case
    by (subst parse_block.simps) (simp add: encode_block_def)
next
  case (Cons e es)
  then have e: "well_formed_entry e" and es: "\<forall>e \<in> set es. well_formed_entry e"
    by auto
  have "parse_block (pre @ encode_block (e # es)) (length pre) r
        = parse_block (pre @ e @ CHR 0x00 # encode_block es) (length pre) r"
    by (simp add: encode_block_def)
  also have "\<dots> = parse_block ((pre @ e @ [CHR 0x00]) @ encode_block es)
                      (length (pre @ e @ [CHR 0x00]))
                      (AList.update (fst (split_entry e)) (snd (split_entry e)) r)"
    by (rule parse_block_step [OF e])
  also have "\<dots> = Inr (foldl (\<lambda>r e. AList.update (fst (split_entry e)) (snd (split_entry e)) r)
                          (AList.update (fst (split_entry e)) (snd (split_entry e)) r) es)"
    by (rule Cons.IH [OF es])
  finally show ?case
    by simp
qed

lemma parse_block_entry_without_equals:
  assumes "\<forall>e \<in> set before. well_formed_entry e"
    and "bad \<noteq> []" and "CHR 0x00 \<notin> set bad" and "CHR ''='' \<notin> set bad"
  shows "parse_block (pre @ encode_block (before @ bad # after)) (length pre) r
         = Inl (ValueError ''substring not found'')"
  using assms(1)
proof (induction before arbitrary: pre r)
  case Nil
  have rd: "read_string (pre @ bad @ CHR 0x00 # encode_block after) (length pre) []
            = Some (bad, length pre + length bad)"
    using read_string_entry [OF assms(3), of pre "encode_block after" "[]"] by simp
  have ix: "str_index bad CHR ''='' = Inl (ValueError ''substring not found'')"
    using assms(4) by (simp add: str_index_def find_first_None [THEN iffD2])
  have "parse_block (pre @ bad @ CHR 0x00 # encode_block after) (length pre) r
        = Inl (ValueError ''substring not found'')"
    by (subst parse_block.simps) (simp add: rd ix assms(2))
  then show ?case
    by (simp add: encode_block_def)
next
  case (Cons e es)
  then have e: "well_formed_entry e" and es: "\<forall>e \<in> set es. well_formed_entry e"
    by auto
  have "parse_block (pre @ encode_block ((e # es) @ bad # after)) (length pre) r
        = parse_block (pre @ e @ CHR 0x00 # encode_block (es @ bad # after)) (length pre) r"
    by (simp add: encode_block_def)
  also have "\<dots> = parse_block ((pre @ e @ [CHR 0x00]) @ encode_block (es @ bad # after))
                      (length (pre @ e @ [CHR 0x00]))
                      (AList.update (fst (split_entry e)) (snd (split_entry e)) r)"
    by (rule parse_block_step [OF e])
  also have "\<dots> = Inl (ValueError ''substring not found'')"
    by (rule Cons.IH [OF es])
  finally show ?case .
qed

lemma get_user_environment_well_formed:
  assumes "sys_platform pf = ''win32''" and "OpenProcessToken pf"
    and "CreateEnvironmentBlock pf = Some (encode_block entries)"
    and "\<forall>e \<in> set entries. well_formed_entry e"
  shows "get_user_environment pf
         = Inr (foldl (\<lambda>r e. AList.update (fst (split_entry e)) (snd (split_entry e)) r)
                  [] entries)"
  using assms parse_block_well_formed [of entries "[]" "[]"]
  by (simp add: get_user_environment_def)

lemma get_user_environment_entry_without_equals:
  assumes "sys_platform pf = ''win32''" and "OpenProcessToken pf"
    and "CreateEnvironmentBlock pf = Some (encode_block (before @ bad # after))"
    and "\<forall>e \<in> set before. well_formed_entry e"
    and "bad \<noteq> []" and "CHR 0x00 \<notin> set bad" and "CHR ''='' \<notin> set bad"
  shows "get_user_environment pf = Inl (ValueError ''substring not found'')"
  using assms parse_block_entry_without_equals [of before bad "[]" after "[]"]
  by (simp add: get_user_environment_def)

subsection \<open>Killing the process tree\<close>

text \<open>
  The first loop tries to kill every descendant, in the order of the enumeration, and
  keeps those whose \<open>kill\<close> did not raise.
\<close>

lemma kill_children_calls: "snd (snd (kill_children ps cs killed os)) = map Kill cs"
proof (induction cs arbitrary: killed os)
  case Nil
  then show ?case by simp
next
  case (Cons c cs)
  obtain r os' where k: "psutil_kill ps c os = (r, os')"
    by (cases "psutil_kill ps c os")
  show ?case
  proof (cases r)
    case None
    with k Cons.IH [of "killed @ [c]" os'] show ?thesis
      by (cases "kill_children ps cs (killed @ [c]) os'") simp
  next
    case (Some e)
    with k Cons.IH [of killed os'] show ?thesis
      by (cases "kill_children ps cs killed os'") simp
  qed
qed

lemma kill_children_killed:
  "set (fst (kill_children ps cs killed os)) \<subseteq> set killed \<union> set cs"
proof (induction cs arbitrary: killed os)
  case Nil
  then show ?case by simp
next
  case (Cons c cs)
  obtain r os' where k: "psutil_kill ps c os = (r, os')"
    by (cases "psutil_kill ps c os")
  show ?case
  proof (cases r)
    case None
    with k Cons.IH [of "killed @ [c]" os'] show ?thesis
      by (cases "kill_children ps cs (killed @ [c]) os'") auto
  next
    case (Some e)
    with k Cons.IH [of killed os'] show ?thesis
      by (cases "kill_children ps cs killed os'") auto
  qed
qed

text \<open>The second loop only terminates, and only processes of the list it is given.\<close>

lemma terminate_remaining_calls:
  "\<exists>ts. snd (terminate_remaining ps ks os) = map Terminate ts \<and> set ts \<subseteq> set ks"
proof (induction ks arbitrary: os)
  case Nil
  then show ?case by simp
next
  case (Cons k ks)
  show ?case
  proof (cases "psutil_is_running ps k os")
    case (Inl e)
    with Cons.IH [of os] show ?thesis by auto
  next
    case (Inr running)
    show ?thesis
    proof (cases running)
      case False
      with Inr Cons.IH [of os] show ?thesis by auto
    next
      case True
      obtain r os' where t: "psutil_terminate ps k os = (r, os')"
        by (cases "psutil_terminate ps k os")
      from Cons.IH [of os'] obtain ts where
        ts: "snd (terminate_remaining ps ks os') = map Terminate ts" "set ts \<subseteq> set ks"
        by blast
      from Inr True t ts have
        "snd (terminate_remaining ps (k # ks) os) = map Terminate (k # ts)"
        by (cases "terminate_remaining ps ks os'") simp
      moreover from ts have "set (k # ts) \<subseteq> set (k # ks)" by auto
      ultimately show ?thesis by blast
    qed
  qed
qed

text \<open>
  When the root is found and its descendants can be listed, \<open>kill_tree\<close> returns,
  whatever the signalling calls answer: it has tried to kill every descendant and then
  the root, and afterwards terminated some of them.
\<close>

lemma kill_tree_returns:
  assumes "psutil_Process ps pid os = None" and "psutil_children ps pid os = Inr cs"
  shows "\<exists>os' ts. kill_tree ps pid os = (None, os', map Kill cs @ [Kill pid] @ map Terminate ts)
           \<and> set ts \<subseteq> set cs \<union> {pid}"
proof -
  obtain killed os1 calls1 where kc: "kill_children ps cs [] os = (killed, os1, calls1)"
    by (cases "kill_children ps cs [] os") auto
  have calls1: "calls1 = map Kill cs"
    using kill_children_calls [of ps cs "[]" os] kc by simp
  have killed: "set killed \<subseteq> set cs"
    using kill_children_killed [of ps cs "[]" os] kc by simp
  obtain r os2 where k: "psutil_kill ps pid os1 = (r, os2)"
    by (cases "psutil_kill ps pid os1")
  obtain os3 calls2 where tr: "terminate_remaining ps (killed @ [pid]) os2 = (os3, calls2)"
    by (cases "terminate_remaining ps (killed @ [pid]) os2")
  from terminate_remaining_calls [of ps "killed @ [pid]" os2] tr obtain ts where
    ts: "calls2 = map Terminate ts" "set ts \<subseteq> set (killed @ [pid])"
    by auto
  have "kill_tree ps pid os = (None, os3, map Kill cs @ [Kill pid] @ map Terminate ts)"
    using assms kc k tr calls1 ts by (simp add: kill_tree_def)
  moreover have "set ts \<subseteq> set cs \<union> {pid}"
    using ts killed by auto
  ultimately show ?thesis by blast
qed

text \<open>
  An exception escapes \<open>kill_tree\<close> exactly when the constructor
  \<open>psutil.Process(process.pid)\<close> or the enumeration of the descendants raises: these
  two calls stand outside the \<open>try\<close> blocks.
\<close>

lemma kill_tree_raises:
  "fst (kill_tree ps pid os) =
     (case psutil_Process ps pid os of
        Some e \<Rightarrow> Some (PsutilError e)
      | None \<Rightarrow>
          (case psutil_children ps pid os of
             Inl e \<Rightarrow> Some (PsutilError e)
           | Inr cs \<Rightarrow> None))"
  by (simp add: kill_tree_def split: option.splits sum.splits prod.splits)

text \<open>
  C4, at the failing input. On the machine with the tree 100, 101, 102 the first call
  kills the descendants and then the root, and the tree is dead. The second call, on
  the dead tree, raises \<open>NoSuchProcess\<close>: the root is no longer in the process table,
  and the constructor of \<open>psutil.Process\<close> is not guarded.
\<close>

theorem C4_second_kill_raises:
  "(case kill_tree sample_psutil 100 tree_machine of
      (raised, m, calls) \<Rightarrow>
        raised = None \<and> calls = [Kill 101, Kill 102, Kill 100] \<and> procs m = []
        \<and> kill_tree sample_psutil 100 m = (Some (PsutilError NoSuchProcess), m, []))"
  by (simp add: kill_tree_def sample_psutil_def tree_machine_def signal_proc_def)

subsection \<open>Closing the window without a submission\<close>

text \<open>
  When no result was submitted and no exception escapes the final \<open>kill_tree\<close>,
  \<open>run\<close> returns the result with the collected log and the empty feedback.
\<close>

lemma ui_run_without_submit:
  assumes "exec_events W events ui os = (reported, ui1, os1)"
    and "feedback_result ui1 = None"
    and "process ui1 = None
         \<or> (\<exists>p. process ui1 = Some p \<and> fst (kill_tree (psutil_of W) p os1) = None)"
  shows "fst (ui_run W events ui os)
         = Inr \<lparr>logs = join_empty (log_buffer ui1), interactive_feedback = []\<rparr>"
  using assms
  by (auto simp: ui_run_def split: option.splits prod.splits)

text \<open>
  C7, at the failing input. \<open>sleep 5\<close> is started and the window is closed while it
  runs. \<open>closeEvent\<close> kills the process and leaves \<open>self.process\<close> set; \<open>run\<close> then
  calls \<open>kill_tree\<close> on the same process again, which is gone from the process table,
  and \<open>NoSuchProcess\<close> escapes \<open>run\<close>: the session yields no result.
\<close>

theorem C7_close_while_running_raises:
  "fst (ui_run sample_world [Command_edited ''sleep 5'', Run_clicked, Window_closed]
          idle_ui empty_machine)
   = Inl (PsutilError NoSuchProcess)"
  by (simp add: ui_defs Let_def get_env_sample kill_tree_def sample_psutil_def signal_proc_def
        idle_ui_def sample_world_def empty_machine_def)

text \<open>Closed with no process live, the same window yields the result with empty feedback.\<close>

lemma close_idle_window:
  "fst (ui_run sample_world [Command_edited ''echo hello'', Run_clicked,
                            Log_line (''hello'' @ NL), Timer_tick, Window_closed]
          idle_ui empty_machine)
   = Inr \<lparr>logs = ''$ echo hello'' @ NL @ ''hello'' @ NL @ NL
                   @ ''Process exited with code 0'' @ NL,
          interactive_feedback = []\<rparr>"
  by (simp add: ui_defs Let_def join_empty_def str_int_0 get_env_sample
        idle_ui_def sample_world_def empty_machine_def)

subsection \<open>The log buffer\<close>

text \<open>
  C9 (as amended). Whatever event the window handles, the buffer changes in one of
  three ways. A click on Run with no process live clears it once, before the first
  entry of the run is appended: afterwards it holds that first entry and at most one
  more, and nothing of what it held before. A click on Clear Console empties it, at
  any time, also while a process runs. Every other event, a click on Run that stops a
  live process among them, leaves the buffer as it is or appends one entry to it.
\<close>

theorem C9_buffer_discipline:
  "(case dispatch W e ui os of
      (raised, ui', os') \<Rightarrow>
        (if e = Run_clicked \<and> process ui = None then
           (\<exists>lines. log_buffer ui' = first_line ui # lines \<and> length lines \<le> 1)
         else if e = Clear_clicked then log_buffer ui' = []
         else (\<exists>lines. log_buffer ui' = log_buffer ui @ lines \<and> length lines \<le> 1)))"
proof (cases e)
  case Run_clicked
  then show ?thesis
    by (auto simp: ui_run_command_def ui_append_log_def first_line_def Let_def
          split: option.splits prod.splits sum.splits)
next
  case Timer_tick
  then show ?thesis
    by (auto simp: ui_check_process_status_def ui_append_log_def
          split: option.splits prod.splits)
next
  case Submit_clicked
  then show ?thesis
    by (auto simp: ui_submit_feedback_def ui_closeEvent_def Let_def
          split: option.splits prod.splits)
next
  case Window_closed
  then show ?thesis
    by (auto simp: ui_closeEvent_def Let_def split: option.splits prod.splits)
qed (auto simp: ui_update_config_def ui_append_log_def clear_logs_def ui_save_config_def
       ui_toggle_command_section_def Let_def)

text \<open>
  C9, witness: a window whose buffer holds an old entry starts \<open>echo hello\<close> on the
  sample machine; afterwards the buffer holds the echo of the command only.
\<close>

theorem C9_buffer_discipline_witness:
  "(case dispatch sample_world Run_clicked
           (idle_ui\<lparr>command_entry := ''echo hello'', log_buffer := [''old'' @ NL]\<rparr>)
           empty_machine of
      (raised, ui', os') \<Rightarrow>
        (\<exists>lines. log_buffer ui' = (''$ echo hello'' @ NL) # lines \<and> length lines \<le> 1))"
proof -
  have "process (idle_ui\<lparr>command_entry := ''echo hello'', log_buffer := [''old'' @ NL]\<rparr>) = None"
    by (simp add: idle_ui_def)
  moreover have
    "first_line (idle_ui\<lparr>command_entry := ''echo hello'', log_buffer := [''old'' @ NL]\<rparr>)
     = ''$ echo hello'' @ NL"
    by (simp add: first_line_def)
  ultimately show ?thesis
    using C9_buffer_discipline
      [where W = sample_world and e = Run_clicked
         and ui = "idle_ui\<lparr>command_entry := ''echo hello'', log_buffer := [''old'' @ NL]\<rparr>"
         and os = empty_machine]
    by (simp split: prod.splits)
qed

text \<open>
  C9, counterexample: \<open>sleep 5\<close> is started and a line of its output has arrived; a
  click on Clear Console then empties the buffer while the process is still live, with
  no new run started.
\<close>

theorem C9_clear_button_counterexample:
  "(case exec_events sample_world
           [Command_edited ''sleep 5'', Run_clicked, Log_line (''tick'' @ NL)]
           idle_ui empty_machine of
      (reported, ui1, os1) \<Rightarrow>
        (case dispatch sample_world Clear_clicked ui1 os1 of
           (raised, ui2, os2) \<Rightarrow>
             process ui1 = Some 100
             \<and> log_buffer ui1 = [''$ sleep 5'' @ NL, ''tick'' @ NL]
             \<and> process ui2 = Some 100
             \<and> log_buffer ui2 = []))"
  by (simp add: ui_defs Let_def get_env_sample idle_ui_def sample_world_def empty_machine_def)

subsection \<open>The output file\<close>

lemma init_sample:
  "FeedbackUI_init sample_world [] ''/a/b/proj'' ''I implemented the changes you requested.''
     empty_machine
   = (None, idle_ui, empty_machine)"
  by (simp add: FeedbackUI_init_def idle_ui_def Let_def)

lemma run_echo_sample:
  "fst (ui_run sample_world echo_session idle_ui empty_machine)
   = Inr \<lparr>logs = ''$ echo hello'' @ NL @ ''hello'' @ NL @ NL
                   @ ''Process exited with code 0'' @ NL,
          interactive_feedback = ''great work''\<rparr>
   \<and> snd (snd (ui_run sample_world echo_session idle_ui empty_machine)) = empty_machine"
  by (simp add: echo_session_def ui_defs Let_def join_empty_def strip_great_work str_int_0
        get_env_sample idle_ui_def sample_world_def empty_machine_def)

text \<open>
  C10. Let the window be built and its session produce \<open>result\<close>. With an output file
  (a path that is not the empty string) whose directory can be made and which can be
  written, \<open>feedback_ui\<close> writes the JSON text of \<open>result\<close> to the file and returns
  \<open>None\<close>, and the command line prints nothing. With no output file it returns
  \<open>result\<close>, and the command line prints the logs and the feedback. And whenever
  \<open>feedback_ui\<close> returns a result, no output file was named (the argument was
  \<open>None\<close> or the empty string).
\<close>

theorem C10_output_file:
  assumes "FeedbackUI_init W stored dir text os = (None, ui, os1)"
    and "ui_run W events ui os1 = (Inr result, ui', os2)"
    and "file \<noteq> []"
    and "makedirs W (if dirname file \<noteq> [] then dirname file else ''.'') os2 = (None, os3)"
    and "write_file W file (json_dumps result) os3 = (None, os4)"
  shows "feedback_ui W stored events dir text (Some file) os = (Inr None, os4)
       \<and> main W stored events dir text (Some file) os = (Inr [], os4)
       \<and> feedback_ui W stored events dir text None os = (Inr (Some result), os2)
       \<and> main W stored events dir text None os
           = (Inr [NL @ ''Logs collected: '' @ NL @ logs result @ NL,
                   NL @ ''Feedback received:'' @ NL @ interactive_feedback result @ NL],
              os2)
       \<and> (\<forall>out r. fst (feedback_ui W stored events dir text out os) = Inr (Some r)
             \<longrightarrow> out = None \<or> out = Some [])"
proof -
  have only: "out = None \<or> out = Some []"
    if "fst (feedback_ui W stored events dir text out os) = Inr (Some r)" for out r
    using that
    by (auto simp: feedback_ui_def split: prod.splits option.splits sum.splits if_splits)
  from assms show ?thesis
    using only by (simp add: feedback_ui_def main_def)
qed

text \<open>
  C10, witness: the session of the example on the sample machine, with the output
  file \<open>out/result.json\<close> and with none.
\<close>

theorem C10_output_file_witness:
  "feedback_ui sample_world [] echo_session ''/a/b/proj''
       ''I implemented the changes you requested.'' (Some ''out/result.json'') empty_machine
     = (Inr None,
        empty_machine
          \<lparr>files :=
             [(''out/result.json'',
               ''{'' @ DQ @ ''logs'' @ DQ @ '': '' @ DQ @ ''$ echo hello'' @ BS @ ''nhello'' @ BS
                 @ ''n'' @ BS @ ''nProcess exited with code 0'' @ BS @ ''n'' @ DQ @ '', '' @ DQ
                 @ ''interactive_feedback'' @ DQ @ '': '' @ DQ @ ''great work'' @ DQ @ ''}'')]\<rparr>)
   \<and> fst (main sample_world [] echo_session ''/a/b/proj''
             ''I implemented the changes you requested.'' (Some ''out/result.json'')
             empty_machine)
       = Inr []
   \<and> fst (main sample_world [] echo_session ''/a/b/proj''
             ''I implemented the changes you requested.'' None empty_machine)
       = Inr [NL @ ''Logs collected: '' @ NL @ ''$ echo hello'' @ NL @ ''hello'' @ NL @ NL
                 @ ''Process exited with code 0'' @ NL @ NL,
              NL @ ''Feedback received:'' @ NL @ ''great work'' @ NL]"
proof -
  let ?result = "\<lparr>logs = ''$ echo hello'' @ NL @ ''hello'' @ NL @ NL
                           @ ''Process exited with code 0'' @ NL,
                  interactive_feedback = ''great work''\<rparr>"
  obtain ui' where run:
    "ui_run sample_world echo_session idle_ui empty_machine = (Inr ?result, ui', empty_machine)"
    using run_echo_sample
    by (cases "ui_run sample_world echo_session idle_ui empty_machine") auto
  have named: "''out/result.json'' \<noteq> []"
    by simp
  have made: "makedirs sample_world
               (if dirname ''out/result.json'' \<noteq> [] then dirname ''out/result.json'' else ''.'')
               empty_machine
             = (None, empty_machine)"
    by (simp add: sample_world_def)
  have written: "write_file sample_world ''out/result.json'' (json_dumps ?result) empty_machine
               = (None, empty_machine\<lparr>files := [(''out/result.json'', json_dumps ?result)]\<rparr>)"
    by (simp add: sample_world_def empty_machine_def)
  from C10_output_file [OF init_sample run named made written] show ?thesis
    by (simp add: json_dumps_def json_string_def json_escape_def)
qed

subsection \<open>Evaluating MD5\<close>

text \<open>
  The digests below are computed by rewriting, in steps small enough for the
  simplifier: the padded block, its sixteen words, the state after each group of eight
  rounds, and the digest.
\<close>

lemma replicate_num: "replicate (numeral k) x = x # replicate (pred_numeral k) x"
  by (simp add: numeral_eq_Suc)

lemma chunks_single: "length xs = n \<Longrightarrow> 0 < n \<Longrightarrow> chunks n xs = [xs]"
  by (cases xs) auto

lemma upt_64_groups:
  "[0..<64] =
     [0, 1, 2, 3, 4, 5, 6, 7] @ [8, 9, 10, 11, 12, 13, 14, 15]
     @ [16, 17, 18, 19, 20, 21, 22, 23] @ [24, 25, 26, 27, 28, 29, 30, 31]
     @ [32, 33, 34, 35, 36, 37, 38, 39] @ [40, 41, 42, 43, 44, 45, 46, 47]
     @ [48, 49, 50, 51, 52, 53, 54, 55] @ [56, 57, 58, 59, 60, 61, 62, 63]"
  by (simp add: upt_conv_Cons)

lemma md5_rounds_chain:
  assumes "foldl (md5_round M) s0 [0, 1, 2, 3, 4, 5, 6, 7] = s1"
    and "foldl (md5_round M) s1 [8, 9, 10, 11, 12, 13, 14, 15] = s2"
    and "foldl (md5_round M) s2 [16, 17, 18, 19, 20, 21, 22, 23] = s3"
    and "foldl (md5_round M) s3 [24, 25, 26, 27, 28, 29, 30, 31] = s4"
    and "foldl (md5_round M) s4 [32, 33, 34, 35, 36, 37, 38, 39] = s5"
    and "foldl (md5_round M) s5 [40, 41, 42, 43, 44, 45, 46, 47] = s6"
    and "foldl (md5_round M) s6 [48, 49, 50, 51, 52, 53, 54, 55] = s7"
    and "foldl (md5_round M) s7 [56, 57, 58, 59, 60, 61, 62, 63] = s8"
  shows "foldl (md5_round M) s0 [0..<64] = s8"
  unfolding upt_64_groups foldl_append assms ..

lemma md5_single_block:
  assumes "md5_pad msg = block" and "length block = 64"
    and "map le_word (chunks 4 block) = M"
    and "foldl (md5_round M) (0x67452301, 0xefcdab89, 0x98badcfe, 0x10325476) [0..<64]
         = (a, b, c, d)"
  shows "md5_digest msg =
           concat (map (\<lambda>w. le_bytes 4 (unat w))
             [0x67452301 + a, 0xefcdab89 + b, 0x98badcfe + c, 0x10325476 + d])"
  using assms by (simp add: md5_digest_def md5_block_def chunks_single Let_def)

lemmas md5_round_defs = md5_round_def md5_F_def md5_g_def md5_K_def md5_s_def rotl32_def


lemma md5_abc: "md5_hexdigest (encode_utf8 ''abc'') = ''900150983cd24fb0d6963f7d28e17f72''"
proof -
  let ?M = "[0x80636261, 0x0, 0x0, 0x0, 0x0, 0x0, 0x0, 0x0, 0x0, 0x0, 0x0, 0x0, 0x0, 0x0, 0x18, 0x0] :: u32 list"
  have pad: "md5_pad (encode_utf8 ''abc'') =
      [97, 98, 99, 128, 0, 0, 0, 0, 0, 0, 0, 0, 0, 0, 0, 0, 0, 0, 0, 0, 0, 0, 0, 0, 0, 0,
      0, 0, 0, 0, 0, 0, 0, 0, 0, 0, 0, 0, 0, 0, 0, 0, 0, 0, 0, 0, 0, 0, 0, 0, 0, 0, 0, 0,
      0, 0, 24, 0, 0, 0, 0, 0, 0, 0]"
    by (simp add: md5_pad_def encode_utf8_def le_bytes_def upt_conv_Cons replicate_num)
  have len: "length (md5_pad (encode_utf8 ''abc'')) = 64"
    by (simp add: pad)
  have words: "map le_word (chunks 4 (md5_pad (encode_utf8 ''abc''))) = ?M"
    by (simp add: pad le_word_def)
  have r1: "foldl (md5_round ?M) (0x67452301, 0xefcdab89, 0x98badcfe, 0x10325476)
      [0, 1, 2, 3, 4, 5, 6, 7]
    = (0xc73741ef, 0x928d99f6, 0x207dc67b, 0x8bac3051)"
    by (simp add: md5_round_defs)
  have r2: "foldl (md5_round ?M) (0xc73741ef, 0x928d99f6, 0x207dc67b, 0x8bac3051)
      [8, 9, 10, 11, 12, 13, 14, 15]
    = (0xdda9b9a6, 0x72aff2e0, 0xe396856b, 0xa1051895)"
    by (simp add: md5_round_defs)
  have r3: "foldl (md5_round ?M) (0xdda9b9a6, 0x72aff2e0, 0xe396856b, 0xa1051895)
      [16, 17, 18, 19, 20, 21, 22, 23]
    = (0x59a8ffda, 0x47092c07, 0xabfc7920, 0x6d002f1e)"
    by (simp add: md5_round_defs)
  have r4: "foldl (md5_round ?M) (0x59a8ffda, 0x47092c07, 0xabfc7920, 0x6d002f1e)
      [24, 25, 26, 27, 28, 29, 30, 31]
    = (0x790a77fb, 0x726342d3, 0xa62884aa, 0x9f47e4f8)"
    by (simp add: md5_round_defs)
  have r5: "foldl (md5_round ?M) (0x790a77fb, 0x726342d3, 0xa62884aa, 0x9f47e4f8)
      [32, 33, 34, 35, 36, 37, 38, 39]
    = (0x21b117b9, 0x5a2f5ea5, 0x3575227e, 0x6e7429d5)"
    by (simp add: md5_round_defs)
  have r6: "foldl (md5_round ?M) (0x21b117b9, 0x5a2f5ea5, 0x3575227e, 0x6e7429d5)
      [40, 41, 42, 43, 44, 45, 46, 47]
    = (0x7f2e507b, 0x7beb9700, 0x8fae6399, 0x99d9679d)"
    by (simp add: md5_round_defs)
  have r7: "foldl (md5_round ?M) (0x7f2e507b, 0x7beb9700, 0x8fae6399, 0x99d9679d)
      [48, 49, 50, 51, 52, 53, 54, 55]
    = (0x06cc5e8a, 0x3bfa2c27, 0x7d632dd0, 0x5b0d97aa)"
    by (simp add: md5_round_defs)
  have r8: "foldl (md5_round ?M) (0x06cc5e8a, 0x3bfa2c27, 0x7d632dd0, 0x5b0d97aa)
      [56, 57, 58, 59, 60, 61, 62, 63]
    = (0x310ade8f, 0xc08226b3, 0xe484b9d8, 0x624d8cb2)"
    by (simp add: md5_round_defs)
  have "md5_digest (encode_utf8 ''abc'') =
      concat (map (\<lambda>w. le_bytes 4 (unat w))
        [0x67452301 + 0x310ade8f, 0xefcdab89 + 0xc08226b3, 0x98badcfe + 0xe484b9d8, 0x10325476 + 0x624d8cb2 :: u32])"
    by (rule md5_single_block [OF refl len words md5_rounds_chain
          [OF r1 r2 r3 r4 r5 r6 r7 r8]])
  then show ?thesis
    by (simp add: md5_hexdigest_def le_bytes_def hex_byte_def hex_digit_def upt_conv_Cons)
qed

lemma md5_a_b_proj: "md5_hexdigest (encode_utf8 ''/a/b/proj'') = ''deb7d405d260b7abb01071c7dbf5798a''"
proof -
  let ?M = "[0x622f612f, 0x6f72702f, 0x806a, 0x0, 0x0, 0x0, 0x0, 0x0, 0x0, 0x0, 0x0, 0x0, 0x0, 0x0, 0x48, 0x0] :: u32 list"
  have pad: "md5_pad (encode_utf8 ''/a/b/proj'') =
      [47, 97, 47, 98, 47, 112, 114, 111, 106, 128, 0, 0, 0, 0, 0, 0, 0, 0, 0, 0, 0, 0, 0,
      0, 0, 0, 0, 0, 0, 0, 0, 0, 0, 0, 0, 0, 0, 0, 0, 0, 0, 0, 0, 0, 0, 0, 0, 0, 0, 0, 0,
      0, 0, 0, 0, 0, 72, 0, 0, 0, 0, 0, 0, 0]"
    by (simp add: md5_pad_def encode_utf8_def le_bytes_def upt_conv_Cons replicate_num)
  have len: "length (md5_pad (encode_utf8 ''/a/b/proj'')) = 64"
    by (simp add: pad)
  have words: "map le_word (chunks 4 (md5_pad (encode_utf8 ''/a/b/proj''))) = ?M"
    by (simp add: pad le_word_def)
  have r1: "foldl (md5_round ?M) (0x67452301, 0xefcdab89, 0x98badcfe, 0x10325476)
      [0, 1, 2, 3, 4, 5, 6, 7]
    = (0x2af5ef06, 0x0dc92441, 0x07e4dc8b, 0xb70d348e)"
    by (simp add: md5_round_defs)
  have r2: "foldl (md5_round ?M) (0x2af5ef06, 0x0dc92441, 0x07e4dc8b, 0xb70d348e)
      [8, 9, 10, 11, 12, 13, 14, 15]
    = (0x68d76dbb, 0xf612417d, 0x8e829b14, 0xbe9ee437)"
    by (simp add: md5_round_defs)
  have r3: "foldl (md5_round ?M) (0x68d76dbb, 0xf612417d, 0x8e829b14, 0xbe9ee437)
      [16, 17, 18, 19, 20, 21, 22, 23]
    = (0x44a8556d, 0xa22cf832, 0x098e31c3, 0x820b3b45)"
    by (simp add: md5_round_defs)
  have r4: "foldl (md5_round ?M) (0x44a8556d, 0xa22cf832, 0x098e31c3, 0x820b3b45)
      [24, 25, 26, 27, 28, 29, 30, 31]
    = (0xed7f8e5f, 0x62c36dd1, 0x37c9e80c, 0x8057079b)"
    by (simp add: md5_round_defs)
  have r5: "foldl (md5_round ?M) (0xed7f8e5f, 0x62c36dd1, 0x37c9e80c, 0x8057079b)
      [32, 33, 34, 35, 36, 37, 38, 39]
    = (0xbcb56234, 0x4cd989f3, 0xc58b0fbf, 0xa3a033b5)"
    by (simp add: md5_round_defs)
  have r6: "foldl (md5_round ?M) (0xbcb56234, 0x4cd989f3, 0xc58b0fbf, 0xa3a033b5)
      [40, 41, 42, 43, 44, 45, 46, 47]
    = (0x2d3ca4eb, 0x31a8b967, 0x25c2190b, 0x5385aad0)"
    by (simp add: md5_round_defs)
  have r7: "foldl (md5_round ?M) (0x2d3ca4eb, 0x31a8b967, 0x25c2190b, 0x5385aad0)
      [48, 49, 50, 51, 52, 53, 54, 55]
    = (0x9f2b85e0, 0xbd8f7411, 0x97f84031, 0xf8fe59db)"
    by (simp add: md5_round_defs)
  have r8: "foldl (md5_round ?M) (0x9f2b85e0, 0xbd8f7411, 0x97f84031, 0xf8fe59db)
      [56, 57, 58, 59, 60, 61, 62, 63]
    = (0x9e8f94dd, 0xbbe9b549, 0x2eb633b2, 0x7a47a165)"
    by (simp add: md5_round_defs)
  have "md5_digest (encode_utf8 ''/a/b/proj'') =
      concat (map (\<lambda>w. le_bytes 4 (unat w))
        [0x67452301 + 0x9e8f94dd, 0xefcdab89 + 0xbbe9b549, 0x98badcfe + 0x2eb633b2, 0x10325476 + 0x7a47a165 :: u32])"
    by (rule md5_single_block [OF refl len words md5_rounds_chain
          [OF r1 r2 r3 r4 r5 r6 r7 r8]])
  then show ?thesis
    by (simp add: md5_hexdigest_def le_bytes_def hex_byte_def hex_digit_def upt_conv_Cons)
qed

lemma md5_c_d_proj: "md5_hexdigest (encode_utf8 ''/c/d/proj'') = ''3a5d918ecf714d7ea4a1f64701836ee1''"
proof -
  let ?M = "[0x642f632f, 0x6f72702f, 0x806a, 0x0, 0x0, 0x0, 0x0, 0x0, 0x0, 0x0, 0x0, 0x0, 0x0, 0x0, 0x48, 0x0] :: u32 list"
  have pad: "md5_pad (encode_utf8 ''/c/d/proj'') =
      [47, 99, 47, 100, 47, 112, 114, 111, 106, 128, 0, 0, 0, 0, 0, 0, 0, 0, 0, 0, 0, 0,
      0, 0, 0, 0, 0, 0, 0, 0, 0, 0, 0, 0, 0, 0, 0, 0, 0, 0, 0, 0, 0, 0, 0, 0, 0, 0, 0, 0,
      0, 0, 0, 0, 0, 0, 72, 0, 0, 0, 0, 0, 0, 0]"
    by (simp add: md5_pad_def encode_utf8_def le_bytes_def upt_conv_Cons replicate_num)
  have len: "length (md5_pad (encode_utf8 ''/c/d/proj'')) = 64"
    by (simp add: pad)
  have words: "map le_word (chunks 4 (md5_pad (encode_utf8 ''/c/d/proj''))) = ?M"
    by (simp add: pad le_word_def)
  have r1: "foldl (md5_round ?M) (0x67452301, 0xefcdab89, 0x98badcfe, 0x10325476)
      [0, 1, 2, 3, 4, 5, 6, 7]
    = (0x873f2489, 0x848c1cd7, 0xdf07a20a, 0x4116b8a7)"
    by (simp add: md5_round_defs)
  have r2: "foldl (md5_round ?M) (0x873f2489, 0x848c1cd7, 0xdf07a20a, 0x4116b8a7)
      [8, 9, 10, 11, 12, 13, 14, 15]
    = (0x20c00dc3, 0x6f96c64a, 0x207a6d43, 0x6f4b76c3)"
    by (simp add: md5_round_defs)
  have r3: "foldl (md5_round ?M) (0x20c00dc3, 0x6f96c64a, 0x207a6d43, 0x6f4b76c3)
      [16, 17, 18, 19, 20, 21, 22, 23]
    = (0x86e136f0, 0xae273aca, 0x1eaad645, 0x2dd80e84)"
    by (simp add: md5_round_defs)
  have r4: "foldl (md5_round ?M) (0x86e136f0, 0xae273aca, 0x1eaad645, 0x2dd80e84)
      [24, 25, 26, 27, 28, 29, 30, 31]
    = (0x66c1091e, 0x15b17a0f, 0x3ba7420b, 0xa8be3fe6)"
    by (simp add: md5_round_defs)
  have r5: "foldl (md5_round ?M) (0x66c1091e, 0x15b17a0f, 0x3ba7420b, 0xa8be3fe6)
      [32, 33, 34, 35, 36, 37, 38, 39]
    = (0xab1ed6ab, 0xd53750fd, 0xb45b82f7, 0xfbd773e4)"
    by (simp add: md5_round_defs)
  have r6: "foldl (md5_round ?M) (0xab1ed6ab, 0xd53750fd, 0xb45b82f7, 0xfbd773e4)
      [40, 41, 42, 43, 44, 45, 46, 47]
    = (0x7706650e, 0x8d91ba4a, 0x5ddef485, 0x62e198b8)"
    by (simp add: md5_round_defs)
  have r7: "foldl (md5_round ?M) (0x7706650e, 0x8d91ba4a, 0x5ddef485, 0x62e198b8)
      [48, 49, 50, 51, 52, 53, 54, 55]
    = (0x8048782f, 0x3bf3a1fd, 0x62f45272, 0x525fb93a)"
    by (simp add: md5_round_defs)
  have r8: "foldl (md5_round ?M) (0x8048782f, 0x3bf3a1fd, 0x62f45272, 0x525fb93a)
      [56, 57, 58, 59, 60, 61, 62, 63]
    = (0x274c3a39, 0x8e7fc646, 0xaf3bc4a6, 0xd13c2e8b)"
    by (simp add: md5_round_defs)
  have "md5_digest (encode_utf8 ''/c/d/proj'') =
      concat (map (\<lambda>w. le_bytes 4 (unat w))
        [0x67452301 + 0x274c3a39, 0xefcdab89 + 0x8e7fc646, 0x98badcfe + 0xaf3bc4a6, 0x10325476 + 0xd13c2e8b :: u32])"
    by (rule md5_single_block [OF refl len words md5_rounds_chain
          [OF r1 r2 r3 r4 r5 r6 r7 r8]])
  then show ?thesis
    by (simp add: md5_hexdigest_def le_bytes_def hex_byte_def hex_digit_def upt_conv_Cons)
qed

lemma md5_u57645_proj: "md5_hexdigest (encode_utf8 ''/u57645/proj'') = ''81a5dd9f5aeb15ac5a14dfcdbc63cacb''"
proof -
  let ?M = "[0x3735752f, 0x2f353436, 0x6a6f7270, 0x80, 0x0, 0x0, 0x0, 0x0, 0x0, 0x0, 0x0, 0x0, 0x0, 0x0, 0x60, 0x0] :: u32 list"
  have pad: "md5_pad (encode_utf8 ''/u57645/proj'') =
      [47, 117, 53, 55, 54, 52, 53, 47, 112, 114, 111, 106, 128, 0, 0, 0, 0, 0, 0, 0, 0,
      0, 0, 0, 0, 0, 0, 0, 0, 0, 0, 0, 0, 0, 0, 0, 0, 0, 0, 0, 0, 0, 0, 0, 0, 0, 0, 0, 0,
      0, 0, 0, 0, 0, 0, 0, 96, 0, 0, 0, 0, 0, 0, 0]"
    by (simp add: md5_pad_def encode_utf8_def le_bytes_def upt_conv_Cons replicate_num)
  have len: "length (md5_pad (encode_utf8 ''/u57645/proj'')) = 64"
    by (simp add: pad)
  have words: "map le_word (chunks 4 (md5_pad (encode_utf8 ''/u57645/proj''))) = ?M"
    by (simp add: pad le_word_def)
  have r1: "foldl (md5_round ?M) (0x67452301, 0xefcdab89, 0x98badcfe, 0x10325476)
      [0, 1, 2, 3, 4, 5, 6, 7]
    = (0x6fb74ec0, 0xd215d448, 0xf62e9167, 0x1e0ae827)"
    by (simp add: md5_round_defs)
  have r2: "foldl (md5_round ?M) (0x6fb74ec0, 0xd215d448, 0xf62e9167, 0x1e0ae827)
      [8, 9, 10, 11, 12, 13, 14, 15]
    = (0xdb44f149, 0xf80d7bed, 0xf5897426, 0xb3df0ad8)"
    by (simp add: md5_round_defs)
  have r3: "foldl (md5_round ?M) (0xdb44f149, 0xf80d7bed, 0xf5897426, 0xb3df0ad8)
      [16, 17, 18, 19, 20, 21, 22, 23]
    = (0x879d93b6, 0xd93fa382, 0x3fa5559d, 0x13e6006e)"
    by (simp add: md5_round_defs)
  have r4: "foldl (md5_round ?M) (0x879d93b6, 0xd93fa382, 0x3fa5559d, 0x13e6006e)
      [24, 25, 26, 27, 28, 29, 30, 31]
    = (0xe99b7724, 0xafa4ec1a, 0x5eb2998a, 0x3834b13c)"
    by (simp add: md5_round_defs)
  have r5: "foldl (md5_round ?M) (0xe99b7724, 0xafa4ec1a, 0x5eb2998a, 0x3834b13c)
      [32, 33, 34, 35, 36, 37, 38, 39]
    = (0x563d63e0, 0x3e13ccd6, 0x804772aa, 0x9b725724)"
    by (simp add: md5_round_defs)
  have r6: "foldl (md5_round ?M) (0x563d63e0, 0x3e13ccd6, 0x804772aa, 0x9b725724)
      [40, 41, 42, 43, 44, 45, 46, 47]
    = (0x95c0c60f, 0x36a1f9a5, 0x629f9ad9, 0xd5af64a6)"
    by (simp add: md5_round_defs)
  have r7: "foldl (md5_round ?M) (0x95c0c60f, 0x36a1f9a5, 0x629f9ad9, 0xd5af64a6)
      [48, 49, 50, 51, 52, 53, 54, 55]
    = (0xb6f3635c, 0x95caf62f, 0xe739b6a1, 0x842db9ff)"
    by (simp add: md5_round_defs)
  have r8: "foldl (md5_round ?M) (0xb6f3635c, 0x95caf62f, 0xe739b6a1, 0x842db9ff)
      [56, 57, 58, 59, 60, 61, 62, 63]
    = (0x38988280, 0xbc483fd1, 0x3524375c, 0xbb980f46)"
    by (simp add: md5_round_defs)
  have "md5_digest (encode_utf8 ''/u57645/proj'') =
      concat (map (\<lambda>w. le_bytes 4 (unat w))
        [0x67452301 + 0x38988280, 0xefcdab89 + 0xbc483fd1, 0x98badcfe + 0x3524375c, 0x10325476 + 0xbb980f46 :: u32])"
    by (rule md5_single_block [OF refl len words md5_rounds_chain
          [OF r1 r2 r3 r4 r5 r6 r7 r8]])
  then show ?thesis
    by (simp add: md5_hexdigest_def le_bytes_def hex_byte_def hex_digit_def upt_conv_Cons)
qed

lemma md5_u66534_proj: "md5_hexdigest (encode_utf8 ''/u66534/proj'') = ''81a5dd9f548f29f7a3c23ff69ac83991''"
proof -
  let ?M = "[0x3636752f, 0x2f343335, 0x6a6f7270, 0x80, 0x0, 0x0, 0x0, 0x0, 0x0, 0x0, 0x0, 0x0, 0x0, 0x0, 0x60, 0x0] :: u32 list"
  have pad: "md5_pad (encode_utf8 ''/u66534/proj'') =
      [47, 117, 54, 54, 53, 51, 52, 47, 112, 114, 111, 106, 128, 0, 0, 0, 0, 0, 0, 0, 0,
      0, 0, 0, 0, 0, 0, 0, 0, 0, 0, 0, 0, 0, 0, 0, 0, 0, 0, 0, 0, 0, 0, 0, 0, 0, 0, 0, 0,
      0, 0, 0, 0, 0, 0, 0, 96, 0, 0, 0, 0, 0, 0, 0]"
    by (simp add: md5_pad_def encode_utf8_def le_bytes_def upt_conv_Cons replicate_num)
  have len: "length (md5_pad (encode_utf8 ''/u66534/proj'')) = 64"
    by (simp add: pad)
  have words: "map le_word (chunks 4 (md5_pad (encode_utf8 ''/u66534/proj''))) = ?M"
    by (simp add: pad le_word_def)
  have r1: "foldl (md5_round ?M) (0x67452301, 0xefcdab89, 0x98badcfe, 0x10325476)
      [0, 1, 2, 3, 4, 5, 6, 7]
    = (0xdf9f20cc, 0xc08b40c1, 0x08ae305a, 0x8ae343a4)"
    by (simp add: md5_round_defs)
  have r2: "foldl (md5_round ?M) (0xdf9f20cc, 0xc08b40c1, 0x08ae305a, 0x8ae343a4)
      [8, 9, 10, 11, 12, 13, 14, 15]
    = (0x36b213de, 0x899d0d7d, 0x2377e094, 0x19527790)"
    by (simp add: md5_round_defs)
  have r3: "foldl (md5_round ?M) (0x36b213de, 0x899d0d7d, 0x2377e094, 0x19527790)
      [16, 17, 18, 19, 20, 21, 22, 23]
    = (0xf1b80b5f, 0x6d2aaea9, 0x2dcd17a4, 0xf69089c1)"
    by (simp add: md5_round_defs)
  have r4: "foldl (md5_round ?M) (0xf1b80b5f, 0x6d2aaea9, 0x2dcd17a4, 0xf69089c1)
      [24, 25, 26, 27, 28, 29, 30, 31]
    = (0x408c691f, 0xef902690, 0x6adfe8ef, 0x4587e572)"
    by (simp add: md5_round_defs)
  have r5: "foldl (md5_round ?M) (0x408c691f, 0xef902690, 0x6adfe8ef, 0x4587e572)
      [32, 33, 34, 35, 36, 37, 38, 39]
    = (0x26cabf05, 0x066ac066, 0xbae6f6f8, 0xd6cf674c)"
    by (simp add: md5_round_defs)
  have r6: "foldl (md5_round ?M) (0x26cabf05, 0x066ac066, 0xbae6f6f8, 0xd6cf674c)
      [40, 41, 42, 43, 44, 45, 46, 47]
    = (0xa3f0d8ec, 0x06bf463a, 0x7fb3b064, 0xd1bf4a0d)"
    by (simp add: md5_round_defs)
  have r7: "foldl (md5_round ?M) (0xa3f0d8ec, 0x06bf463a, 0x7fb3b064, 0xd1bf4a0d)
      [48, 49, 50, 51, 52, 53, 54, 55]
    = (0x5b88ccea, 0x29b43916, 0x4303d771, 0x3f02d15b)"
    by (simp add: md5_round_defs)
  have r8: "foldl (md5_round ?M) (0x5b88ccea, 0x29b43916, 0x4303d771, 0x3f02d15b)
      [56, 57, 58, 59, 60, 61, 62, 63]
    = (0x38988280, 0x075be3cb, 0x5d84e5a5, 0x81077424)"
    by (simp add: md5_round_defs)
  have "md5_digest (encode_utf8 ''/u66534/proj'') =
      concat (map (\<lambda>w. le_bytes 4 (unat w))
        [0x67452301 + 0x38988280, 0xefcdab89 + 0x075be3cb, 0x98badcfe + 0x5d84e5a5, 0x10325476 + 0x81077424 :: u32])"
    by (rule md5_single_block [OF refl len words md5_rounds_chain
          [OF r1 r2 r3 r4 r5 r6 r7 r8]])
  then show ?thesis
    by (simp add: md5_hexdigest_def le_bytes_def hex_byte_def hex_digit_def upt_conv_Cons)
qed
subsection \<open>The settings group key\<close>

lemma length_hex_bytes: "length (concat (map hex_byte bs)) = 2 * length bs"
  by (induction bs) (simp_all add: hex_byte_def)

lemma length_md5_digest: "length (md5_digest msg) = 16"
  by (simp add: md5_digest_def le_bytes_def split: prod.splits)

lemma length_md5_hexdigest: "length (md5_hexdigest msg) = 32"
  by (simp add: md5_hexdigest_def length_hex_bytes length_md5_digest)

lemma basename_a_b_proj: "basename (normpath ''/a/b/proj'') = ''proj''"
  by (simp add: basename_def normpath_def normpath_step_def Let_def)

lemma basename_c_d_proj: "basename (normpath ''/c/d/proj'') = ''proj''"
  by (simp add: basename_def normpath_def normpath_step_def Let_def)

lemma basename_u57645_proj: "basename (normpath ''/u57645/proj'') = ''proj''"
  by (simp add: basename_def normpath_def normpath_step_def Let_def)

lemma basename_u66534_proj: "basename (normpath ''/u66534/proj'') = ''proj''"
  by (simp add: basename_def normpath_def normpath_step_def Let_def)

text \<open>
  The base name is taken from the normalised path: a trailing slash, which leaves
  \<open>basename\<close> alone with nothing, does not change the first part of the key.
\<close>

lemma basename_trailing_slash:
  "basename ''/a/b/proj/'' = [] \<and> basename (normpath ''/a/b/proj/'') = ''proj''"
  by (simp add: basename_def normpath_def normpath_step_def Let_def)

text \<open>
  C8 (as amended). The key of a project directory is the base name of the normalised
  path, an underscore, and the first eight hexadecimal digits of the MD5 digest of the
  path as given; it is a function of the path alone, so that the same path always has
  the same key. The keys of \<open>/a/b/proj\<close> and \<open>/c/d/proj\<close> are \<open>proj_deb7d405\<close> and
  \<open>proj_3a5d918e\<close>. Two paths with the same base name have different keys exactly
  when their digests differ within the first eight digits.
\<close>

theorem C8_settings_group_key:
  "get_project_settings_group p
     = basename (normpath p) @ ''_'' @ take 8 (md5_hexdigest (encode_utf8 p))
   \<and> length (take 8 (md5_hexdigest (encode_utf8 p))) = 8
   \<and> get_project_settings_group ''/a/b/proj'' = ''proj_deb7d405''
   \<and> get_project_settings_group ''/c/d/proj'' = ''proj_3a5d918e''
   \<and> (\<forall>q. basename (normpath p) = basename (normpath q) \<longrightarrow>
          (get_project_settings_group p \<noteq> get_project_settings_group q
           \<longleftrightarrow> take 8 (md5_hexdigest (encode_utf8 p))
                 \<noteq> take 8 (md5_hexdigest (encode_utf8 q))))"
  by (simp add: get_project_settings_group_def Let_def length_md5_hexdigest
        basename_a_b_proj basename_c_d_proj md5_a_b_proj md5_c_d_proj)

text \<open>C8, witness: \<open>/a/b/proj\<close> and \<open>/c/d/proj\<close> share the base name and differ in the key.\<close>

theorem C8_settings_group_key_witness:
  "basename (normpath ''/a/b/proj'') = basename (normpath ''/c/d/proj'')
   \<and> take 8 (md5_hexdigest (encode_utf8 ''/a/b/proj'')) = ''deb7d405''
   \<and> take 8 (md5_hexdigest (encode_utf8 ''/c/d/proj'')) = ''3a5d918e''
   \<and> get_project_settings_group ''/a/b/proj'' \<noteq> get_project_settings_group ''/c/d/proj''"
proof -
  have same: "basename (normpath ''/a/b/proj'') = basename (normpath ''/c/d/proj'')"
    by (simp add: basename_a_b_proj basename_c_d_proj)
  have a: "take 8 (md5_hexdigest (encode_utf8 ''/a/b/proj'')) = ''deb7d405''"
    by (simp add: md5_a_b_proj)
  have c: "take 8 (md5_hexdigest (encode_utf8 ''/c/d/proj'')) = ''3a5d918e''"
    by (simp add: md5_c_d_proj)
  from C8_settings_group_key [of "''/a/b/proj''"] same
  have "get_project_settings_group ''/a/b/proj'' \<noteq> get_project_settings_group ''/c/d/proj''
        \<longleftrightarrow> take 8 (md5_hexdigest (encode_utf8 ''/a/b/proj''))
              \<noteq> take 8 (md5_hexdigest (encode_utf8 ''/c/d/proj''))"
    by blast
  with same a c show ?thesis
    by simp
qed

text \<open>
  C8, counterexample: \<open>/u57645/proj\<close> and \<open>/u66534/proj\<close> are different paths with
  the same base name, and their digests both begin with \<open>81a5dd9f\<close>: they have the same
  key.
\<close>

theorem C8_same_key_counterexample:
  "''/u57645/proj'' \<noteq> ''/u66534/proj''
   \<and> basename (normpath ''/u57645/proj'') = basename (normpath ''/u66534/proj'')
   \<and> get_project_settings_group ''/u57645/proj'' = ''proj_81a5dd9f''
   \<and> get_project_settings_group ''/u66534/proj'' = ''proj_81a5dd9f''"
  by (simp add: get_project_settings_group_def Let_def basename_u57645_proj
        basename_u66534_proj md5_u57645_proj md5_u66534_proj)

end
